theory Spec2Isabelle
  imports Complex_Main
begin

section \<open>Data model of \<open>caffe2/python/core.py\<close>\<close>

text \<open>
  Blobs are plain strings; versions, operator indices and counters are the
  non-negative Python integers the code only ever creates by \<open>0\<close>,
  \<open>len(...)\<close>, \<open>enumerate\<close> and \<open>+ 1\<close>, hence \<open>nat\<close>.
\<close>

type_synonym blob = string

text \<open>
  The protobuf message \<open>caffe2_pb2.DeviceOption\<close>, with the three fields the
  helper \<open>DeviceOption(device_type, cuda_gpu_id, random_seed)\<close> of the module
  assigns. Each field is optional, as in proto2; the empty message is
  \<open>DeviceOption None None None\<close>.
\<close>

datatype DeviceOption = DeviceOption "int option" "int option" "int option"

text \<open>Values of keyword arguments turned into operator arguments (\<open>axis=0\<close>, \<open>value=1.0\<close>).\<close>

datatype ArgValue = IntArg int | FloatArg real

text \<open>
  \<open>caffe2_pb2.OperatorDef\<close>: the fields the gradient code reads or writes.
  \<open>device_option = None\<close> is \<open>HasField('device_option') = False\<close>.
\<close>

record OperatorDef =
  op_type :: string
  op_input :: "blob list"
  op_output :: "blob list"
  device_option :: "DeviceOption option"
  op_arg :: "(string \<times> ArgValue) list"

text \<open>
  A gradient as the Python code passes it around: \<open>None\<close>, a blob name, or the
  named tuple \<open>GradientSlice(indices, values)\<close>.
\<close>

datatype Gradient = NoGrad | Dense blob | GradientSlice blob blob

text \<open>
  \<open>OpSSA = namedtuple('OpSSA', ['op', 'in_versions', 'out_versions'])\<close>; the two
  version tables are plain dicts.
\<close>

record OpSSA =
  ssa_op :: OperatorDef
  in_versions :: "blob \<rightharpoonup> nat"
  out_versions :: "blob \<rightharpoonup> nat"

text \<open>
  Gradient operators are mutable objects shared between the list of emitted
  operators and the generator metadata, so they live in a store and are named
  by reference. \<open>GradGenMeta\<close> and \<open>SparseGradGenMeta\<close> are the two named
  tuples; an operator field that is \<open>None\<close> in Python is \<open>None\<close> here.
\<close>

type_synonym ref = nat

type_synonym heap = "ref \<Rightarrow> OperatorDef"

datatype GradGen =
    GradGenMeta "ref option" nat Gradient
  | SparseGradGenMeta "ref option" nat "ref option" nat Gradient

text \<open>
  The state of class \<open>IR\<close>. \<open>frontier\<close> is a \<open>defaultdict(int)\<close> that the code
  also tests for membership, so it is a partial map whose reads insert the
  default. \<open>input_usages\<close> and \<open>gradient_generators\<close> are nested defaultdicts
  of lists that are only ever indexed, never iterated or tested for
  membership: the total function with default \<open>[]\<close> is the same thing.
\<close>

record IR =
  ssa :: "OpSSA list"
  input_usages :: "blob \<Rightarrow> nat \<Rightarrow> nat list"
  frontier :: "blob \<rightharpoonup> nat"
  gradient_frontier :: "blob \<rightharpoonup> nat"
  gradient_generators :: "blob \<Rightarrow> nat \<Rightarrow> GradGen list"

section \<open>Forward replay: \<open>IR.__init__\<close> and \<open>IR.Play\<close>\<close>

text \<open>\<open>self.frontier[s]\<close>: the value, and the dict after the read.\<close>

definition frontier_get :: "(blob \<rightharpoonup> nat) \<Rightarrow> blob \<Rightarrow> nat \<times> (blob \<rightharpoonup> nat)" where
  "frontier_get fr s = (case fr s of None \<Rightarrow> (0, fr(s \<mapsto> 0)) | Some v \<Rightarrow> (v, fr))"

text \<open>
  One round of \<open>for s in op.input\<close>:
  \<^verbatim>\<open>in_versions[s] = self.frontier[s]
self.input_usages[s][self.frontier[s]].append(len(self.ssa))\<close>
\<close>

definition Play_input :: "nat \<Rightarrow> (blob \<rightharpoonup> nat) \<times> IR \<Rightarrow> blob \<Rightarrow> (blob \<rightharpoonup> nat) \<times> IR" where
  "Play_input n st s =
     (let inv = fst st; ir = snd st;
          v = fst (frontier_get (frontier ir) s);
          fr = snd (frontier_get (frontier ir) s)
      in (inv(s \<mapsto> v),
          ir\<lparr>frontier := fr,
             input_usages := (input_usages ir)
               (s := (input_usages ir s)(v := input_usages ir s v @ [n]))\<rparr>))"

text \<open>
  One round of \<open>for s in op.output\<close>:
  \<^verbatim>\<open>if s in self.frontier:
    self.frontier[s] += 1
out_versions[s] = self.frontier[s]\<close>
\<close>

definition Play_output :: "(blob \<rightharpoonup> nat) \<times> (blob \<rightharpoonup> nat) \<Rightarrow> blob \<Rightarrow> (blob \<rightharpoonup> nat) \<times> (blob \<rightharpoonup> nat)" where
  "Play_output st s =
     (let outv = fst st; fr = snd st;
          fr1 = (case fr s of None \<Rightarrow> fr | Some v \<Rightarrow> fr(s \<mapsto> v + 1));
          v = fst (frontier_get fr1 s);
          fr2 = snd (frontier_get fr1 s)
      in (outv(s \<mapsto> v), fr2))"

definition Play :: "IR \<Rightarrow> OperatorDef \<Rightarrow> IR" where
  "Play ir operator =
     (let n = length (ssa ir);
          st1 = foldl (Play_input n) (Map.empty, ir) (op_input operator);
          st2 = foldl Play_output (Map.empty, frontier (snd st1)) (op_output operator)
      in (snd st1)\<lparr>frontier := snd st2,
                    ssa := ssa (snd st1) @
                      [\<lparr>ssa_op = operator, in_versions = fst st1, out_versions = fst st2\<rparr>]\<rparr>)"

definition IR_empty :: IR where
  "IR_empty = \<lparr>ssa = [], input_usages = (\<lambda>_ _. []), frontier = Map.empty,
                gradient_frontier = Map.empty, gradient_generators = (\<lambda>_ _. [])\<rparr>"

definition IR_init :: "OperatorDef list \<Rightarrow> IR" where
  "IR_init operators = foldl Play IR_empty operators"

text \<open>The version a read of \<open>frontier[b]\<close> yields.\<close>

definition frontier_of :: "IR \<Rightarrow> blob \<Rightarrow> nat" where
  "frontier_of ir b = fst (frontier_get (frontier ir) b)"

text \<open>Number of times \<open>b\<close> is listed as an output by the operators.\<close>

definition output_count :: "blob \<Rightarrow> OperatorDef list \<Rightarrow> nat" where
  "output_count b operators = count_list (concat (map op_output operators)) b"

text \<open>
  Whether the first mention of \<open>b\<close> in the sequence is as an output of an
  operator that does not also read it (the inputs of an operator are replayed
  before its outputs).
\<close>

fun created_by :: "blob \<Rightarrow> OperatorDef list \<Rightarrow> bool" where
  "created_by b [] = False"
| "created_by b (x # xs) =
     (if b \<in> set (op_input x) then False
      else if b \<in> set (op_output x) then True
      else created_by b xs)"

text \<open>Whether any operator of the sequence lists \<open>b\<close> as an input or an output.\<close>

definition mentioned :: "blob \<Rightarrow> OperatorDef list \<Rightarrow> bool" where
  "mentioned b xs = (\<exists>x \<in> set xs. b \<in> set (op_input x) \<or> b \<in> set (op_output x))"

section \<open>Errors\<close>

text \<open>
  Every \<open>raise\<close> of the gradient code is a value. \<open>RuntimeError\<close> carries
  what the message is formatted from; the other constructors are the Python
  exceptions that indexing, unpacking and \<open>assert\<close> raise.
\<close>

datatype RuntimeError =
    GradientNameVersion blob nat blob nat
  | OutputVersion blob nat nat
  | InputVersion blob nat nat
  | NotInScope blob OperatorDef
  | SumOpsConflict
  | MixedSparseDense
  | GradNamesDiffer
  | DeviceOptionsDiffer
  | FailedToVerify blob RuntimeError

datatype error =
    RuntimeError RuntimeError
  | KeyError string
  | IndexError
  | AssertionError
  | AttributeError
  | ValueError
  | OtherException string
  | NoGradientRegistered string error

section \<open>Operator construction: \<open>CreateOperator\<close>\<close>

text \<open>
  Module \<open>scope\<close> and Python's iteration order over a \<open>set\<close> are not part of
  the file; they are parameters. \<open>CurrentNameScope\<close> and
  \<open>CurrentDeviceScope\<close> are what \<open>scope.CurrentNameScope()\<close> and
  \<open>scope.CurrentDeviceScope()\<close> return, and \<open>set_order xs\<close> is the order in
  which \<open>for x in set(xs)\<close> visits the elements.
\<close>

record Env =
  CurrentNameScope :: string
  CurrentDeviceScope :: "DeviceOption option"
  set_order :: "blob list \<Rightarrow> blob list"

text \<open>
  An input or output handed to \<open>CreateOperator\<close> is a raw string, which
  \<open>_RectifyInputOutput\<close> prefixes with the current name scope, or a
  \<open>BlobReference\<close>, which it takes as it is.
\<close>

datatype BlobArg = Name string | BlobReference string

definition ScopedName :: "Env \<Rightarrow> string \<Rightarrow> string" where
  "ScopedName env name = CurrentNameScope env @ name"

fun RectifyInputOutput :: "Env \<Rightarrow> BlobArg \<Rightarrow> blob" where
  "RectifyInputOutput env (Name s) = ScopedName env s"
| "RectifyInputOutput env (BlobReference s) = s"

text \<open>\<open>str(y)\<close> of a string or a \<open>BlobReference\<close>.\<close>

fun str_of :: "BlobArg \<Rightarrow> string" where
  "str_of (Name s) = s"
| "str_of (BlobReference s) = s"

text \<open>
  \<open>CreateOperator(operator_type, inputs, outputs, **kwargs)\<close> as the gradient
  code calls it: no \<open>name\<close>, \<open>control_input\<close>, \<open>device_option\<close>, \<open>arg\<close> or
  \<open>engine\<close>, so the device option is the current device scope when there is
  one and unset otherwise. Running the operator in immediate mode is an
  effect on the workspace and leaves the returned record alone.
\<close>

definition CreateOperator ::
  "Env \<Rightarrow> string \<Rightarrow> BlobArg list \<Rightarrow> BlobArg list \<Rightarrow> (string \<times> ArgValue) list \<Rightarrow> OperatorDef" where
  "CreateOperator env operator_type inputs outputs kwargs =
     \<lparr>op_type = operator_type,
      op_input = map (RectifyInputOutput env) inputs,
      op_output = map (RectifyInputOutput env) outputs,
      device_option = CurrentDeviceScope env,
      op_arg = kwargs\<rparr>"

section \<open>\<open>GetIndexFromGradientList\<close> and \<open>IR.CheckGradientOperatorInput\<close>\<close>

fun grad_matches :: "Gradient \<Rightarrow> blob \<Rightarrow> bool" where
  "grad_matches NoGrad name = False"
| "grad_matches (Dense s) name = (s = name)"
| "grad_matches (GradientSlice indices values) name = (indices = name \<or> values = name)"

fun GetIndexFrom :: "nat \<Rightarrow> Gradient list \<Rightarrow> blob \<Rightarrow> nat option" where
  "GetIndexFrom i [] name = None"
| "GetIndexFrom i (g # g_list) name =
     (if grad_matches g name then Some i else GetIndexFrom (Suc i) g_list name)"

definition GetIndexFromGradientList :: "Gradient list \<Rightarrow> blob \<Rightarrow> nat option" where
  "GetIndexFromGradientList g_list name = GetIndexFrom 0 g_list name"

text \<open>\<open>self.ssa[fwd_op_idx]\<close> and \<open>d[k]\<close> on a plain dict.\<close>

definition ssa_at :: "IR \<Rightarrow> nat \<Rightarrow> error + OpSSA" where
  "ssa_at ir i = (if i < length (ssa ir) then Inr (ssa ir ! i) else Inl IndexError)"

definition dict_get :: "(string \<rightharpoonup> 'a) \<Rightarrow> string \<Rightarrow> error + 'a" where
  "dict_get d k = (case d k of None \<Rightarrow> Inl (KeyError k) | Some v \<Rightarrow> Inr v)"

definition list_get :: "'a list \<Rightarrow> nat \<Rightarrow> error + 'a" where
  "list_get xs i = (if i < length xs then Inr (xs ! i) else Inl IndexError)"

text \<open>
  The \<open>if\<close>/\<open>elif\<close> chain of \<open>CheckGradientOperatorInput\<close>, in its order. The
  result is the \<open>IR\<close>, since reading \<open>self.frontier[...]\<close> may insert a key.
\<close>

definition CheckGradientOperatorInput ::
  "IR \<Rightarrow> blob \<Rightarrow> Gradient list \<Rightarrow> nat \<Rightarrow> blob list \<Rightarrow> error + IR" where
  "CheckGradientOperatorInput ir grad_op_input g_output fwd_op_idx locally_generated_blobs =
     (case ssa_at ir fwd_op_idx of
        Inl e \<Rightarrow> Inl e
      | Inr entry \<Rightarrow>
         (case GetIndexFromGradientList g_output grad_op_input of
            Some original_index \<Rightarrow>
              (case list_get (op_output (ssa_op entry)) original_index of
                 Inl e \<Rightarrow> Inl e
               | Inr original_name \<Rightarrow>
                  (case dict_get (out_versions entry) original_name of
                     Inl e \<Rightarrow> Inl e
                   | Inr ov \<Rightarrow>
                      (case dict_get (gradient_frontier ir) original_name of
                         Inl e \<Rightarrow> Inl e
                       | Inr gv \<Rightarrow>
                          if ov \<noteq> gv
                          then Inl (RuntimeError
                                 (GradientNameVersion grad_op_input ov original_name gv))
                          else Inr ir)))
          | None \<Rightarrow>
              (case out_versions entry grad_op_input of
                 Some ov \<Rightarrow>
                   (let fv = fst (frontier_get (frontier ir) grad_op_input);
                        fr = snd (frontier_get (frontier ir) grad_op_input)
                    in if fv \<noteq> ov
                       then Inl (RuntimeError (OutputVersion grad_op_input ov fv))
                       else Inr (ir\<lparr>frontier := fr\<rparr>))
               | None \<Rightarrow>
                   (case in_versions entry grad_op_input of
                      Some iv \<Rightarrow>
                        (let fv = fst (frontier_get (frontier ir) grad_op_input);
                             fr = snd (frontier_get (frontier ir) grad_op_input)
                         in if fv \<noteq> iv
                            then Inl (RuntimeError (InputVersion grad_op_input iv fv))
                            else Inr (ir\<lparr>frontier := fr\<rparr>))
                    | None \<Rightarrow>
                        if grad_op_input \<notin> set locally_generated_blobs
                        then Inl (RuntimeError (NotInScope grad_op_input (ssa_op entry)))
                        else Inr ir))))"

section \<open>\<open>GradientRegistry.GetGradientForOp\<close>\<close>

text \<open>
  What a registered rule hands back as \<open>gradient_ops\<close>: \<open>None\<close>, one
  operator, or a list.
\<close>

datatype RuleOps = OpsNone | OpsSingle OperatorDef | OpsList "OperatorDef list"

type_synonym native_rule =
  "OperatorDef \<Rightarrow> Gradient list \<Rightarrow> error + (OperatorDef list \<times> Gradient list)"

type_synonym python_rule =
  "OperatorDef \<Rightarrow> Gradient list \<Rightarrow> error + (RuleOps \<times> Gradient list)"

text \<open>
  \<open>GetGradientForOpCC\<close> is \<open>_GetGradientForOpCC\<close>, whose work is done by the C
  extension: a parameter, returning its list of parsed operators or the
  exception it raised. \<open>gradient_registry\<close> is the class attribute
  \<open>gradient_registry_\<close>. The inner \<open>try\<close> covers both the lookup and the call
  of the rule, so a \<open>KeyError\<close> from either is turned into the "No gradient
  registered" exception, which quotes the native exception.
\<close>

definition GetGradientForOp ::
  "native_rule \<Rightarrow> (string \<rightharpoonup> python_rule) \<Rightarrow> OperatorDef \<Rightarrow> Gradient list
     \<Rightarrow> error + (OperatorDef list \<times> Gradient list)" where
  "GetGradientForOp GetGradientForOpCC gradient_registry operator g_output =
     (case (case GetGradientForOpCC operator g_output of
              Inr r \<Rightarrow> Inr (OpsList (fst r), snd r)
            | Inl e \<Rightarrow>
               (case gradient_registry (op_type operator) of
                  None \<Rightarrow> Inl (NoGradientRegistered (op_type operator) e)
                | Some rule \<Rightarrow>
                   (case rule operator g_output of
                      Inl (KeyError k) \<Rightarrow> Inl (NoGradientRegistered (op_type operator) e)
                    | Inl e' \<Rightarrow> Inl e'
                    | Inr r \<Rightarrow> Inr r))) of
        Inl e \<Rightarrow> Inl e
      | Inr (OpsNone, g_input) \<Rightarrow> Inr ([], g_input)
      | Inr (OpsSingle x, g_input) \<Rightarrow> Inr ([x], g_input)
      | Inr (OpsList xs, g_input) \<Rightarrow> Inr (xs, g_input))"

section \<open>The accumulation synthesizer\<close>

text \<open>\<open>'{}'.format(cnt)\<close>: the decimal numeral of a non-negative integer.\<close>

function str_nat :: "nat \<Rightarrow> string" where
  "str_nat n =
     (if n < 10 then [''0123456789'' ! n]
      else str_nat (n div 10) @ [''0123456789'' ! (n mod 10)])"
  by pat_completeness auto
termination
  by (relation "measure id") auto

declare str_nat.simps [simp del]

text \<open>
  The local function of \<open>_GetSumOpOutputName\<close>:
  \<^verbatim>\<open>if s.endswith(suffix): return s[:-len(suffix)]
return s\<close>
  For the empty suffix \<open>s[:-0]\<close> is the empty string.
\<close>

definition endswith :: "string \<Rightarrow> string \<Rightarrow> bool" where
  "endswith s suffix =
     (length suffix \<le> length s \<and> drop (length s - length suffix) s = suffix)"

definition remove_suffix :: "string \<Rightarrow> string \<Rightarrow> string" where
  "remove_suffix s suffix =
     (if endswith s suffix
      then (if suffix = [] then [] else take (length s - length suffix) s)
      else s)"

text \<open>\<open>grad_op.output[idx]\<close> of an operator in the store.\<close>

definition output_at :: "heap \<Rightarrow> ref \<Rightarrow> nat \<Rightarrow> error + blob" where
  "output_at h r idx = list_get (op_output (h r)) idx"

fun GetSumOpOutputName :: "heap \<Rightarrow> GradGen list \<Rightarrow> blob \<Rightarrow> error + blob" where
  "GetSumOpOutputName h [] input_name = Inr (input_name @ ''_grad'')"
| "GetSumOpOutputName h (GradGenMeta grad_op idx g # generator) input_name =
     (case grad_op of
        Some r \<Rightarrow> output_at h r idx
      | None \<Rightarrow> GetSumOpOutputName h generator input_name)"
| "GetSumOpOutputName h (SparseGradGenMeta op_i idx_i op_v idx_v g # generator) input_name =
     (case op_i of
        Some r \<Rightarrow>
          (case output_at h r idx_i of
             Inl e \<Rightarrow> Inl e
           | Inr s \<Rightarrow> Inr (remove_suffix s ''_indices''))
      | None \<Rightarrow>
          (case op_v of
             Some r \<Rightarrow>
               (case output_at h r idx_v of
                  Inl e \<Rightarrow> Inl e
                | Inr s \<Rightarrow> Inr (remove_suffix s ''_values''))
           | None \<Rightarrow> GetSumOpOutputName h generator input_name))"

text \<open>
  The operator whose device option \<open>_SetSumOpsDeviceOption\<close> looks at:
  \<open>generator.grad_op\<close>, or \<open>generator.grad_op_values or generator.grad_op_indices\<close>.
\<close>

fun device_source :: "GradGen \<Rightarrow> ref option" where
  "device_source (GradGenMeta grad_op idx g) = grad_op"
| "device_source (SparseGradGenMeta op_i idx_i op_v idx_v g) =
     (case op_v of Some r \<Rightarrow> Some r | None \<Rightarrow> op_i)"

text \<open>
  \<^verbatim>\<open>for generator in generators:
    grad_op = ...
    if grad_op:
        if grad_op.HasField('device_option'):
            for op in sum_ops:
                op.device_option.CopyFrom(grad_op.device_option)
        break\<close>
\<close>

fun SetSumOpsDeviceOption :: "heap \<Rightarrow> OperatorDef list \<Rightarrow> GradGen list \<Rightarrow> OperatorDef list" where
  "SetSumOpsDeviceOption h sum_ops [] = sum_ops"
| "SetSumOpsDeviceOption h sum_ops (generator # generators) =
     (case device_source generator of
        Some r \<Rightarrow>
          (case device_option (h r) of
             Some d \<Rightarrow> map (\<lambda>x. x\<lparr>device_option := Some d\<rparr>) sum_ops
           | None \<Rightarrow> sum_ops)
      | None \<Rightarrow> SetSumOpsDeviceOption h sum_ops generators)"

text \<open>
  \<^verbatim>\<open>grad_op.output[idx] = ('_' + grad_op.output[idx] + '_autosplit_{}'.format(cnt))
return grad_op.output[idx], cnt + 1\<close>
  The operator is changed in the store, so every holder of the reference sees
  the new name.
\<close>

definition DisambiguateGradOpOutput :: "heap \<Rightarrow> ref \<Rightarrow> nat \<Rightarrow> nat \<Rightarrow> error + (heap \<times> blob \<times> nat)" where
  "DisambiguateGradOpOutput h grad_op idx cnt =
     (if idx < length (op_output (h grad_op))
      then (let out = ''_'' @ op_output (h grad_op) ! idx @ ''_autosplit_'' @ str_nat cnt
            in Inr (h(grad_op := (h grad_op)\<lparr>op_output := (op_output (h grad_op))[idx := out]\<rparr>),
                    out, cnt + 1))
      else Inl IndexError)"

definition CheckSumOpsConflict :: "blob \<Rightarrow> blob \<Rightarrow> error + unit" where
  "CheckSumOpsConflict out_base_name g =
     (if out_base_name = g then Inl (RuntimeError SumOpsConflict) else Inr ())"

text \<open>
  One contribution to a merge operator: the renamed output of the producing
  operator, or the literal name after the conflict check. The state is the
  store, the inputs collected so far and the counter.
\<close>

definition contribution ::
  "blob \<Rightarrow> heap \<times> blob list \<times> nat \<Rightarrow> ref option \<Rightarrow> nat \<Rightarrow> blob
     \<Rightarrow> error + (heap \<times> blob list \<times> nat)" where
  "contribution out_base_name st grad_op idx g =
     (case grad_op of
        Some r \<Rightarrow>
          (case DisambiguateGradOpOutput (fst st) r idx (snd (snd st)) of
             Inl e \<Rightarrow> Inl e
           | Inr res \<Rightarrow> Inr (fst res, fst (snd st) @ [fst (snd res)], snd (snd res)))
      | None \<Rightarrow>
          (case CheckSumOpsConflict out_base_name g of
             Inl e \<Rightarrow> Inl e
           | Inr u \<Rightarrow> Inr (fst st, fst (snd st) @ [g], snd (snd st))))"

text \<open>
  The loop of \<open>_MakeDenseSumOps\<close>. Unpacking a sparse generator into three
  names raises \<open>ValueError\<close>; the \<open>assert\<close> rejects a \<open>GradientSlice\<close>;
  \<open>str(g)\<close> of \<open>None\<close> is \<open>'None'\<close>.
\<close>

fun MakeDenseSumOps_loop ::
  "blob \<Rightarrow> heap \<times> blob list \<times> nat \<Rightarrow> GradGen list \<Rightarrow> error + (heap \<times> blob list \<times> nat)" where
  "MakeDenseSumOps_loop out_base_name st [] = Inr st"
| "MakeDenseSumOps_loop out_base_name st (SparseGradGenMeta op_i idx_i op_v idx_v g # generators) =
     Inl ValueError"
| "MakeDenseSumOps_loop out_base_name st (GradGenMeta grad_op idx g # generators) =
     (case g of
        GradientSlice indices values \<Rightarrow> Inl AssertionError
      | NoGrad \<Rightarrow>
          (case contribution out_base_name st grad_op idx ''None'' of
             Inl e \<Rightarrow> Inl e
           | Inr st' \<Rightarrow> MakeDenseSumOps_loop out_base_name st' generators)
      | Dense s \<Rightarrow>
          (case contribution out_base_name st grad_op idx s of
             Inl e \<Rightarrow> Inl e
           | Inr st' \<Rightarrow> MakeDenseSumOps_loop out_base_name st' generators))"

text \<open>
  \<open>map(BlobReference, ...)\<close> is a list (Python 2, which the module targets), so
  the names reach the operator without a name-scope prefix.
\<close>

definition MakeDenseSumOps ::
  "Env \<Rightarrow> heap \<Rightarrow> GradGen list \<Rightarrow> blob \<Rightarrow> error + (heap \<times> OperatorDef list \<times> Gradient)" where
  "MakeDenseSumOps env h generators out_base_name =
     (case MakeDenseSumOps_loop out_base_name (h, [], 0) generators of
        Inl e \<Rightarrow> Inl e
      | Inr st \<Rightarrow>
          Inr (fst st,
               [CreateOperator env ''Sum'' (map BlobReference (fst (snd st)))
                  [BlobReference out_base_name] []],
               Dense out_base_name))"

text \<open>
  The loop of \<open>_MakeSparseSumOps\<close>, with its two lists and two counters. The
  \<open>assert\<close> rejects a dense generator; \<open>g.indices\<close> of anything but a
  \<open>GradientSlice\<close> raises \<open>AttributeError\<close>, and is only evaluated when the
  generator has no indices operator (likewise \<open>g.values\<close>).
\<close>

fun MakeSparseSumOps_loop ::
  "blob \<Rightarrow> heap \<times> (blob list \<times> nat) \<times> (blob list \<times> nat) \<Rightarrow> GradGen list
     \<Rightarrow> error + (heap \<times> (blob list \<times> nat) \<times> (blob list \<times> nat))" where
  "MakeSparseSumOps_loop out_base_name st [] = Inr st"
| "MakeSparseSumOps_loop out_base_name st (GradGenMeta grad_op idx g # generators) =
     Inl AssertionError"
| "MakeSparseSumOps_loop out_base_name st (SparseGradGenMeta op_i idx_i op_v idx_v g # generators) =
     (case (case (op_i, g) of
              (None, NoGrad) \<Rightarrow> Inl AttributeError
            | (None, Dense s) \<Rightarrow> Inl AttributeError
            | (None, GradientSlice indices values) \<Rightarrow>
                contribution out_base_name (fst st, fst (snd st)) None idx_i indices
            | (Some r, g') \<Rightarrow>
                contribution out_base_name (fst st, fst (snd st)) (Some r) idx_i []) of
        Inl e \<Rightarrow> Inl e
      | Inr sti \<Rightarrow>
          (case (case (op_v, g) of
                   (None, NoGrad) \<Rightarrow> Inl AttributeError
                 | (None, Dense s) \<Rightarrow> Inl AttributeError
                 | (None, GradientSlice indices values) \<Rightarrow>
                     contribution out_base_name (fst sti, snd (snd st)) None idx_v values
                 | (Some r, g') \<Rightarrow>
                     contribution out_base_name (fst sti, snd (snd st)) (Some r) idx_v []) of
             Inl e \<Rightarrow> Inl e
           | Inr stv \<Rightarrow>
               MakeSparseSumOps_loop out_base_name (fst stv, snd sti, snd stv) generators))"

definition MakeSparseSumOps ::
  "Env \<Rightarrow> heap \<Rightarrow> GradGen list \<Rightarrow> blob \<Rightarrow> error + (heap \<times> OperatorDef list \<times> Gradient)" where
  "MakeSparseSumOps env h generators out_base_name =
     (case MakeSparseSumOps_loop out_base_name (h, ([], 0), ([], 0)) generators of
        Inl e \<Rightarrow> Inl e
      | Inr st \<Rightarrow>
          (let indices_concat_input = fst (fst (snd st));
               values_concat_input = fst (snd (snd st));
               indices_concat_output = out_base_name @ ''_indices_concat'';
               indices_concat_split = out_base_name @ ''_indices_concat_split'';
               values_concat_output = out_base_name @ ''_values_concat'';
               values_concat_split = out_base_name @ ''_values_concat_split''
           in Inr (fst st,
                   [CreateOperator env ''Concat'' (map BlobReference indices_concat_input)
                      (map BlobReference [indices_concat_output, indices_concat_split])
                      [(''axis'', IntArg 0)],
                    CreateOperator env ''Concat'' (map BlobReference values_concat_input)
                      (map BlobReference [values_concat_output, values_concat_split])
                      [(''axis'', IntArg 0)]],
                   GradientSlice indices_concat_output values_concat_output)))"

fun is_GradGenMeta :: "GradGen \<Rightarrow> bool" where
  "is_GradGenMeta (GradGenMeta grad_op idx g) = True"
| "is_GradGenMeta (SparseGradGenMeta op_i idx_i op_v idx_v g) = False"

text \<open>
  \<open>_MakeSumOps\<close>. \<open>types = list(set(type(x) for x in generators))\<close> has one
  element exactly when the list is non-empty and of one kind.
\<close>

definition MakeSumOps ::
  "Env \<Rightarrow> IR \<Rightarrow> heap \<Rightarrow> blob \<Rightarrow> nat \<Rightarrow> error + (heap \<times> OperatorDef list \<times> Gradient)" where
  "MakeSumOps env ir h input_name input_version =
     (let generators = gradient_generators ir input_name input_version
      in case GetSumOpOutputName h generators input_name of
           Inl e \<Rightarrow> Inl e
         | Inr out_base_name \<Rightarrow>
            if generators = [] \<or>
               ((\<exists>x \<in> set generators. is_GradGenMeta x) \<and>
                (\<exists>x \<in> set generators. \<not> is_GradGenMeta x))
            then Inl AssertionError
            else
              (case (if is_GradGenMeta (hd generators)
                     then MakeDenseSumOps env h generators out_base_name
                     else MakeSparseSumOps env h generators out_base_name) of
                 Inl e \<Rightarrow> Inl e
               | Inr res \<Rightarrow>
                  Inr (fst res,
                       SetSumOpsDeviceOption (fst res) (fst (snd res)) generators,
                       snd (snd res))))"

section \<open>\<open>IR._VerifyGradientGenerators\<close> and \<open>IR.DoGradientAccumulation\<close>\<close>

text \<open>
  \<open>grad_op.device_option\<close> read as a value: an unset field reads as the empty
  message.
\<close>

definition device_option_of :: "OperatorDef \<Rightarrow> DeviceOption" where
  "device_option_of x =
     (case device_option x of None \<Rightarrow> DeviceOption None None None | Some d \<Rightarrow> d)"

text \<open>
  The loop that fills \<open>all_gradient_names\<close> and \<open>all_device_options\<close>. A
  Python string is \<open>Dense\<close> of it; \<open>g.gradient.values\<close> of anything but a
  \<open>GradientSlice\<close> raises \<open>AttributeError\<close>.
\<close>

fun collect_names_devices ::
  "heap \<Rightarrow> Gradient list \<times> DeviceOption list \<Rightarrow> GradGen list
     \<Rightarrow> error + (Gradient list \<times> DeviceOption list)" where
  "collect_names_devices h acc [] = Inr acc"
| "collect_names_devices h acc (GradGenMeta grad_op idx g # generator) =
     (case grad_op of
        Some r \<Rightarrow>
          collect_names_devices h (fst acc @ [g], snd acc @ [device_option_of (h r)]) generator
      | None \<Rightarrow> collect_names_devices h acc generator)"
| "collect_names_devices h acc (SparseGradGenMeta op_i idx_i op_v idx_v g # generator) =
     (let devs1 = (case op_i of
                     Some r \<Rightarrow> snd acc @ [device_option_of (h r)]
                   | None \<Rightarrow> snd acc)
      in case op_v of
           None \<Rightarrow> collect_names_devices h (fst acc, devs1) generator
         | Some r \<Rightarrow>
            (case g of
               GradientSlice indices values \<Rightarrow>
                 collect_names_devices h
                   (fst acc @ [Dense values], devs1 @ [device_option_of (h r)]) generator
             | NoGrad \<Rightarrow> Inl AttributeError
             | Dense s \<Rightarrow> Inl AttributeError))"

definition VerifyGradientGenerators :: "heap \<Rightarrow> GradGen list \<Rightarrow> error + bool" where
  "VerifyGradientGenerators h generator =
     (if (\<exists>x \<in> set generator. is_GradGenMeta x) \<and> (\<exists>x \<in> set generator. \<not> is_GradGenMeta x)
      then Inl (RuntimeError MixedSparseDense)
      else if length generator < 2 then Inr False
      else
        (case collect_names_devices h ([], []) generator of
           Inl e \<Rightarrow> Inl e
         | Inr acc \<Rightarrow>
            if 1 < length (remdups (fst acc)) then Inl (RuntimeError GradNamesDiffer)
            else if 2 \<le> length (snd acc) \<and> \<not> list_all (\<lambda>d. d = hd (snd acc)) (tl (snd acc))
            then Inl (RuntimeError DeviceOptionsDiffer)
            else Inr True))"

text \<open>
  The body of the loop of \<open>DoGradientAccumulation\<close> for one input name. The
  state is the store, \<open>additional_sum_ops\<close> and \<open>grad_map\<close>. Only a
  \<open>RuntimeError\<close> of the verification is caught and raised again with the
  name of the blob.
\<close>

definition DoGradientAccumulation_step ::
  "Env \<Rightarrow> IR \<Rightarrow> nat \<Rightarrow> OpSSA
     \<Rightarrow> heap \<times> OperatorDef list \<times> (blob \<rightharpoonup> Gradient) \<Rightarrow> blob
     \<Rightarrow> error + (heap \<times> OperatorDef list \<times> (blob \<rightharpoonup> Gradient))" where
  "DoGradientAccumulation_step env ir fwd_op_idx entry st input_name =
     (case dict_get (in_versions entry) input_name of
        Inl e \<Rightarrow> Inl e
      | Inr input_version \<Rightarrow>
         (let input_usage = input_usages ir input_name input_version
          in if length input_usage \<le> 1 \<or> fwd_op_idx \<noteq> hd input_usage then Inr st
             else
               (case VerifyGradientGenerators (fst st)
                       (gradient_generators ir input_name input_version) of
                  Inl (RuntimeError err) \<Rightarrow>
                    Inl (RuntimeError (FailedToVerify input_name err))
                | Inl e \<Rightarrow> Inl e
                | Inr False \<Rightarrow> Inr st
                | Inr True \<Rightarrow>
                   (case MakeSumOps env ir (fst st) input_name input_version of
                      Inl e \<Rightarrow> Inl e
                    | Inr res \<Rightarrow>
                       Inr (fst res,
                            fst (snd st) @ fst (snd res),
                            (snd (snd st))(input_name \<mapsto> snd (snd res)))))))"

fun DoGradientAccumulation_loop ::
  "Env \<Rightarrow> IR \<Rightarrow> nat \<Rightarrow> OpSSA
     \<Rightarrow> heap \<times> OperatorDef list \<times> (blob \<rightharpoonup> Gradient) \<Rightarrow> blob list
     \<Rightarrow> error + (heap \<times> OperatorDef list \<times> (blob \<rightharpoonup> Gradient))" where
  "DoGradientAccumulation_loop env ir fwd_op_idx entry st [] = Inr st"
| "DoGradientAccumulation_loop env ir fwd_op_idx entry st (input_name # names) =
     (case DoGradientAccumulation_step env ir fwd_op_idx entry st input_name of
        Inl e \<Rightarrow> Inl e
      | Inr st' \<Rightarrow> DoGradientAccumulation_loop env ir fwd_op_idx entry st' names)"

text \<open>
  \<open>DoGradientAccumulation(fwd_op_idx)\<close>: the store after the renamings,
  \<open>additional_sum_ops\<close> and \<open>grad_map\<close>.
\<close>

definition DoGradientAccumulation ::
  "Env \<Rightarrow> IR \<Rightarrow> heap \<Rightarrow> nat
     \<Rightarrow> error + (heap \<times> OperatorDef list \<times> (blob \<rightharpoonup> Gradient))" where
  "DoGradientAccumulation env ir h fwd_op_idx =
     (case ssa_at ir fwd_op_idx of
        Inl e \<Rightarrow> Inl e
      | Inr entry \<Rightarrow>
          DoGradientAccumulation_loop env ir fwd_op_idx entry (h, [], Map.empty)
            (set_order env (op_input (ssa_op entry))))"

section \<open>The generator ledger: \<open>IR.BuildGradientGenerators\<close>\<close>

text \<open>\<open>self.gradient_generators[name][version].append(generator)\<close>.\<close>

definition append_generator :: "IR \<Rightarrow> blob \<Rightarrow> nat \<Rightarrow> GradGen \<Rightarrow> IR" where
  "append_generator ir name version generator =
     ir\<lparr>gradient_generators := (gradient_generators ir)
          (name := (gradient_generators ir name)
             (version := gradient_generators ir name version @ [generator]))\<rparr>"

text \<open>
  The local \<open>sparse_generators\<close>, a nested defaultdict of lists, as the list of
  its non-empty entries in the order the keys were first used:
  \<open>sparse_generators[input_name][input_version].append(m)\<close>.
\<close>

type_synonym sparse_table = "((blob \<times> nat) \<times> GradGen list) list"

fun sparse_append :: "sparse_table \<Rightarrow> blob \<times> nat \<Rightarrow> GradGen \<Rightarrow> sparse_table" where
  "sparse_append [] k m = [(k, [m])]"
| "sparse_append (entry # rest) k m =
     (if fst entry = k then (k, snd entry @ [m]) # rest
      else entry # sparse_append rest k m)"

text \<open>
  The merge of \<open>AppendSparseGenerators\<close> for one list: a single partial
  generator is kept; two are merged under the five assertions; any other
  length fails the assertion on the length. \<open>a or b\<close> on operators is \<open>a\<close>
  unless it is \<open>None\<close>.
\<close>

fun merge_sparse :: "GradGen list \<Rightarrow> error + GradGen" where
  "merge_sparse [generator] = Inr generator"
| "merge_sparse [SparseGradGenMeta op1_i idx1_i op1_v idx1_v g1,
                 SparseGradGenMeta op2_i idx2_i op2_v idx2_v g2] =
     (if g1 \<noteq> g2 then Inl AssertionError
      else if \<not> (op1_i = None \<or> op2_i = None) then Inl AssertionError
      else if \<not> (op1_v = None \<or> op2_v = None) then Inl AssertionError
      else if \<not> (idx1_i = 0 \<or> idx2_i = 0) then Inl AssertionError
      else if \<not> (idx1_v = 0 \<or> idx2_v = 0) then Inl AssertionError
      else Inr (SparseGradGenMeta
                  (case op1_i of Some r \<Rightarrow> Some r | None \<Rightarrow> op2_i) (idx1_i + idx2_i)
                  (case op1_v of Some r \<Rightarrow> Some r | None \<Rightarrow> op2_v) (idx1_v + idx2_v)
                  g1))"
| "merge_sparse [a, b] = Inl ValueError"
| "merge_sparse generators = Inl AssertionError"

fun AppendSparseGenerators :: "IR \<Rightarrow> sparse_table \<Rightarrow> error + IR" where
  "AppendSparseGenerators ir [] = Inr ir"
| "AppendSparseGenerators ir (entry # rest) =
     (case merge_sparse (snd entry) of
        Inl e \<Rightarrow> Inl e
      | Inr generator \<Rightarrow>
          AppendSparseGenerators
            (append_generator ir (fst (fst entry)) (snd (fst entry)) generator) rest)"

text \<open>Step (1): \<open>for s in grad_op.input: self.CheckGradientOperatorInput(...)\<close>.\<close>

fun check_inputs :: "IR \<Rightarrow> Gradient list \<Rightarrow> nat \<Rightarrow> blob list \<Rightarrow> blob list \<Rightarrow> error + IR" where
  "check_inputs ir g_output fwd_op_idx locally_generated_blobs [] = Inr ir"
| "check_inputs ir g_output fwd_op_idx locally_generated_blobs (s # rest) =
     (case CheckGradientOperatorInput ir s g_output fwd_op_idx locally_generated_blobs of
        Inl e \<Rightarrow> Inl e
      | Inr ir' \<Rightarrow> check_inputs ir' g_output fwd_op_idx locally_generated_blobs rest)"

text \<open>
  Step (2), one round of \<open>for i, output in enumerate(grad_op.output)\<close>: what
  is recorded for an output that is the gradient of an input.
\<close>

definition record_output ::
  "OpSSA \<Rightarrow> Gradient list \<Rightarrow> ref \<Rightarrow> nat \<Rightarrow> IR \<times> sparse_table \<Rightarrow> blob
     \<Rightarrow> error + (IR \<times> sparse_table)" where
  "record_output entry g_input grad_op i st output =
     (case GetIndexFromGradientList g_input output of
        None \<Rightarrow> Inr st
      | Some input_index \<Rightarrow>
         (case list_get (op_input (ssa_op entry)) input_index of
            Inl e \<Rightarrow> Inl e
          | Inr input_name \<Rightarrow>
             (case dict_get (in_versions entry) input_name of
                Inl e \<Rightarrow> Inl e
              | Inr input_version \<Rightarrow>
                 (case list_get g_input input_index of
                    Inl e \<Rightarrow> Inl e
                  | Inr (GradientSlice indices values) \<Rightarrow>
                      if indices = output
                      then Inr (fst st,
                             sparse_append (snd st) (input_name, input_version)
                               (SparseGradGenMeta (Some grad_op) i None 0
                                  (GradientSlice indices values)))
                      else if values = output
                      then Inr (fst st,
                             sparse_append (snd st) (input_name, input_version)
                               (SparseGradGenMeta None 0 (Some grad_op) i
                                  (GradientSlice indices values)))
                      else Inl AssertionError
                  | Inr g \<Rightarrow>
                      Inr (append_generator (fst st) input_name input_version
                             (GradGenMeta (Some grad_op) i g),
                           snd st)))))"

fun record_outputs ::
  "OpSSA \<Rightarrow> Gradient list \<Rightarrow> ref \<Rightarrow> nat \<Rightarrow> IR \<times> sparse_table \<Rightarrow> blob list
     \<Rightarrow> error + (IR \<times> sparse_table)" where
  "record_outputs entry g_input grad_op i st [] = Inr st"
| "record_outputs entry g_input grad_op i st (output # rest) =
     (case record_output entry g_input grad_op i st output of
        Inl e \<Rightarrow> Inl e
      | Inr st' \<Rightarrow> record_outputs entry g_input grad_op (Suc i) st' rest)"

text \<open>
  \<open>for grad_op in gradient_ops\<close>: steps (1) and (2). The state is the \<open>IR\<close>,
  \<open>locally_generated_blobs\<close> and \<open>sparse_generators\<close>.
\<close>

fun build_from_ops ::
  "heap \<Rightarrow> nat \<Rightarrow> OpSSA \<Rightarrow> Gradient list \<Rightarrow> Gradient list
     \<Rightarrow> IR \<times> blob list \<times> sparse_table \<Rightarrow> ref list
     \<Rightarrow> error + (IR \<times> blob list \<times> sparse_table)" where
  "build_from_ops h fwd_op_idx entry g_output g_input st [] = Inr st"
| "build_from_ops h fwd_op_idx entry g_output g_input st (grad_op # rest) =
     (case check_inputs (fst st) g_output fwd_op_idx (fst (snd st)) (op_input (h grad_op)) of
        Inl e \<Rightarrow> Inl e
      | Inr ir1 \<Rightarrow>
         (case record_outputs entry g_input grad_op 0 (ir1, snd (snd st))
                 (op_output (h grad_op)) of
            Inl e \<Rightarrow> Inl e
          | Inr st2 \<Rightarrow>
              build_from_ops h fwd_op_idx entry g_output g_input
                (fst st2, fst (snd st) @ op_output (h grad_op), snd st2) rest))"

text \<open>
  Step (4), \<open>for input_index, g in enumerate(g_input)\<close>: a gradient passed
  through without a producing operator. \<open>not g\<close> holds for \<open>None\<close> and for the
  empty string.
\<close>

fun passthrough_generators ::
  "OpSSA \<Rightarrow> blob list \<Rightarrow> nat \<Rightarrow> IR \<Rightarrow> Gradient list \<Rightarrow> error + IR" where
  "passthrough_generators entry locally_generated_blobs input_index ir [] = Inr ir"
| "passthrough_generators entry locally_generated_blobs input_index ir (g # rest) =
     (case list_get (op_input (ssa_op entry)) input_index of
        Inl e \<Rightarrow> Inl e
      | Inr input_name \<Rightarrow>
         (case dict_get (in_versions entry) input_name of
            Inl e \<Rightarrow> Inl e
          | Inr input_version \<Rightarrow>
              passthrough_generators entry locally_generated_blobs (Suc input_index)
                (case g of
                   NoGrad \<Rightarrow> ir
                 | Dense s \<Rightarrow>
                     if s = [] then ir
                     else if s \<notin> set locally_generated_blobs
                     then append_generator ir input_name input_version (GradGenMeta None 0 g)
                     else ir
                 | GradientSlice indices values \<Rightarrow>
                     if indices \<notin> set locally_generated_blobs \<and>
                        values \<notin> set locally_generated_blobs
                     then append_generator ir input_name input_version
                            (SparseGradGenMeta None 0 None 0 g)
                     else ir)
                rest))"

text \<open>The last loop: the gradient frontier of every input with a gradient.\<close>

fun update_gradient_frontier :: "OpSSA \<Rightarrow> nat \<Rightarrow> IR \<Rightarrow> Gradient list \<Rightarrow> error + IR" where
  "update_gradient_frontier entry i ir [] = Inr ir"
| "update_gradient_frontier entry i ir (g # rest) =
     (if g = NoGrad then update_gradient_frontier entry (Suc i) ir rest
      else
        (case list_get (op_input (ssa_op entry)) i of
           Inl e \<Rightarrow> Inl e
         | Inr input_name \<Rightarrow>
            (case dict_get (in_versions entry) input_name of
               Inl e \<Rightarrow> Inl e
             | Inr input_version \<Rightarrow>
                 update_gradient_frontier entry (Suc i)
                   (ir\<lparr>gradient_frontier := (gradient_frontier ir)(input_name \<mapsto> input_version)\<rparr>)
                   rest)))"

definition BuildGradientGenerators ::
  "IR \<Rightarrow> heap \<Rightarrow> nat \<Rightarrow> ref list \<Rightarrow> Gradient list \<Rightarrow> Gradient list \<Rightarrow> error + IR" where
  "BuildGradientGenerators ir h fwd_op_idx gradient_ops g_output g_input =
     (case ssa_at ir fwd_op_idx of
        Inl e \<Rightarrow> Inl e
      | Inr entry \<Rightarrow>
         (case build_from_ops h fwd_op_idx entry g_output g_input (ir, [], []) gradient_ops of
            Inl e \<Rightarrow> Inl e
          | Inr st \<Rightarrow>
             (case AppendSparseGenerators (fst st) (snd (snd st)) of
                Inl e \<Rightarrow> Inl e
              | Inr ir3 \<Rightarrow>
                 (case passthrough_generators entry (fst (snd st)) 0 ir3 g_input of
                    Inl e \<Rightarrow> Inl e
                  | Inr ir4 \<Rightarrow> update_gradient_frontier entry 0 ir4 g_input))))"

section \<open>The driver: \<open>IR.GetBackwardPass\<close>\<close>

text \<open>
  The store of gradient operators: the objects and the next free reference.
  The operators a rule returns, and the merge operators, are new objects.
\<close>

record Store =
  objs :: heap
  next_ref :: nat

fun alloc :: "Store \<Rightarrow> OperatorDef list \<Rightarrow> Store \<times> ref list" where
  "alloc st [] = (st, [])"
| "alloc st (x # xs) =
     (let res = alloc \<lparr>objs = (objs st)(next_ref st := x), next_ref = Suc (next_ref st)\<rparr> xs
      in (fst res, next_ref st # snd res))"

text \<open>
  \<open>ys\<close> is the dict of targets as the list of its items, in the order
  \<open>ys.items()\<close> yields them. A \<open>BlobReference\<close> hashes and compares as its
  name, so the keys of a dict are pairwise different as names:
  \<open>distinct (map (\<lambda>p. str_of (fst p)) ys)\<close>. A list of targets is first turned
  into the dict \<open>dict((y, None) for y in ys)\<close>, in which a repeated target is
  one key: its items are \<open>(y, NoGrad)\<close> for the different names of the list.
\<close>

text \<open>\<open>for y, _ in ys.items(): self.gradient_frontier[y] = self.frontier[y]\<close>.\<close>

fun set_gradient_frontier :: "IR \<Rightarrow> (BlobArg \<times> Gradient) list \<Rightarrow> IR" where
  "set_gradient_frontier ir [] = ir"
| "set_gradient_frontier ir (item # ys) =
     (let y = str_of (fst item);
          v = fst (frontier_get (frontier ir) y);
          fr = snd (frontier_get (frontier ir) y)
      in set_gradient_frontier
           (ir\<lparr>frontier := fr, gradient_frontier := (gradient_frontier ir)(y \<mapsto> v)\<rparr>) ys)"

text \<open>
  \<open>_GetInitGradients\<close>, one round of \<open>for y, g in ys.items()\<close>; the state is
  \<open>input_to_grad\<close> and \<open>gradient_ops\<close>.
\<close>

definition GetInitGradients_step ::
  "Env \<Rightarrow> (blob \<rightharpoonup> Gradient) \<times> OperatorDef list \<Rightarrow> BlobArg \<times> Gradient
     \<Rightarrow> (blob \<rightharpoonup> Gradient) \<times> OperatorDef list" where
  "GetInitGradients_step env st item =
     (case snd item of
        NoGrad \<Rightarrow>
          (let autograd_op = CreateOperator env ''ConstantFill'' [fst item]
                 [Name (str_of (fst item) @ ''_autogen_grad'')] [(''value'', FloatArg 1)]
           in ((fst st)(str_of (fst item) \<mapsto> Dense (hd (op_output autograd_op))),
               snd st @ [autograd_op]))
      | g \<Rightarrow> ((fst st)(str_of (fst item) \<mapsto> g), snd st))"

definition GetInitGradients ::
  "Env \<Rightarrow> (BlobArg \<times> Gradient) list \<Rightarrow> (blob \<rightharpoonup> Gradient) \<times> OperatorDef list" where
  "GetInitGradients env ys = foldl (GetInitGradients_step env) (Map.empty, []) ys"

text \<open>
  \<open>input_to_grad.get(name, None)\<close>; a key stored with \<open>None\<close> is
  \<open>Some NoGrad\<close>, an absent key is \<open>None\<close>.
\<close>

definition grad_get :: "(blob \<rightharpoonup> Gradient) \<Rightarrow> blob \<Rightarrow> Gradient" where
  "grad_get m name = (case m name of None \<Rightarrow> NoGrad | Some g \<Rightarrow> g)"

definition new_input_to_grad_step ::
  "(blob \<rightharpoonup> Gradient) \<Rightarrow> blob list \<Rightarrow> (blob \<rightharpoonup> Gradient) \<Rightarrow> blob \<times> Gradient
     \<Rightarrow> (blob \<rightharpoonup> Gradient)" where
  "new_input_to_grad_step input_to_grad outputs m p =
     (if snd p \<noteq> NoGrad \<or> input_to_grad (fst p) = None \<or> fst p \<in> set outputs
      then m(fst p \<mapsto> snd p) else m)"

definition GenerateGradientsForForwardOp ::
  "native_rule \<Rightarrow> (string \<rightharpoonup> python_rule) \<Rightarrow> IR \<Rightarrow> Store \<Rightarrow> nat \<Rightarrow> (blob \<rightharpoonup> Gradient)
     \<Rightarrow> error + (IR \<times> Store \<times> (blob \<rightharpoonup> Gradient) \<times> ref list)" where
  "GenerateGradientsForForwardOp GetGradientForOpCC gradient_registry ir store
       forward_op_idx input_to_grad =
     (case ssa_at ir forward_op_idx of
        Inl e \<Rightarrow> Inl e
      | Inr entry \<Rightarrow>
         (let forward_op = ssa_op entry;
              g_output = map (grad_get input_to_grad) (op_output forward_op)
          in if list_all (\<lambda>g. g = NoGrad) g_output then Inr (ir, store, Map.empty, [])
             else
               (case GetGradientForOp GetGradientForOpCC gradient_registry forward_op g_output of
                  Inl e \<Rightarrow> Inl e
                | Inr res \<Rightarrow>
                   (let a = alloc store (fst res)
                    in case BuildGradientGenerators ir (objs (fst a)) forward_op_idx (snd a)
                              g_output (snd res) of
                         Inl e \<Rightarrow> Inl e
                       | Inr ir' \<Rightarrow>
                           Inr (ir', fst a,
                                foldl (new_input_to_grad_step input_to_grad (op_output forward_op))
                                  Map.empty (zip (op_input forward_op) (snd res)),
                                snd a)))))"

record BackwardState =
  bs_ir :: IR
  bs_store :: Store
  all_input_to_grad :: "blob \<rightharpoonup> Gradient"
  all_gradient_ops :: "ref list"

text \<open>The body of \<open>for forward_op_idx in reversed(range(len(self.ssa)))\<close>.\<close>

definition backward_step ::
  "Env \<Rightarrow> native_rule \<Rightarrow> (string \<rightharpoonup> python_rule) \<Rightarrow> nat \<Rightarrow> BackwardState
     \<Rightarrow> error + BackwardState" where
  "backward_step env GetGradientForOpCC gradient_registry forward_op_idx st =
     (case GenerateGradientsForForwardOp GetGradientForOpCC gradient_registry
             (bs_ir st) (bs_store st) forward_op_idx (all_input_to_grad st) of
        Inl e \<Rightarrow> Inl e
      | Inr (ir1, store1, input_to_grad, gradient_ops) \<Rightarrow>
         (case DoGradientAccumulation env ir1 (objs store1) forward_op_idx of
            Inl e \<Rightarrow> Inl e
          | Inr (h2, additional_sum_ops, grad_map) \<Rightarrow>
             (let a = alloc (store1\<lparr>objs := h2\<rparr>) additional_sum_ops
              in Inr \<lparr>bs_ir = ir1, bs_store = fst a,
                      all_input_to_grad = (all_input_to_grad st ++ input_to_grad) ++ grad_map,
                      all_gradient_ops = (all_gradient_ops st @ gradient_ops) @ snd a\<rparr>)))"

fun backward_loop ::
  "Env \<Rightarrow> native_rule \<Rightarrow> (string \<rightharpoonup> python_rule) \<Rightarrow> nat \<Rightarrow> BackwardState
     \<Rightarrow> error + BackwardState" where
  "backward_loop env GetGradientForOpCC gradient_registry 0 st = Inr st"
| "backward_loop env GetGradientForOpCC gradient_registry (Suc i) st =
     (case backward_step env GetGradientForOpCC gradient_registry i st of
        Inl e \<Rightarrow> Inl e
      | Inr st' \<Rightarrow> backward_loop env GetGradientForOpCC gradient_registry i st')"

text \<open>
  The state before the reverse walk: the gradient frontier of the targets is
  set, and \<open>all_input_to_grad, all_gradient_ops = self._GetInitGradients(ys)\<close>.
\<close>

definition backward_start :: "Env \<Rightarrow> IR \<Rightarrow> (BlobArg \<times> Gradient) list \<Rightarrow> BackwardState" where
  "backward_start env ir ys =
     (let a = alloc \<lparr>objs = (\<lambda>r. \<lparr>op_type = [], op_input = [], op_output = [],
                                   device_option = None, op_arg = []\<rparr>),
                     next_ref = 0\<rparr>
                (snd (GetInitGradients env ys))
      in \<lparr>bs_ir = set_gradient_frontier ir ys, bs_store = fst a,
          all_input_to_grad = fst (GetInitGradients env ys),
          all_gradient_ops = snd a\<rparr>)"

text \<open>
  \<open>IR.GetBackwardPass(ys)\<close>: the operators in the order they were emitted,
  read from the store at the end, and the map restricted to the entries that
  are not \<open>None\<close>.
\<close>

definition GetBackwardPass ::
  "Env \<Rightarrow> native_rule \<Rightarrow> (string \<rightharpoonup> python_rule) \<Rightarrow> IR \<Rightarrow> (BlobArg \<times> Gradient) list
     \<Rightarrow> error + (OperatorDef list \<times> (blob \<rightharpoonup> Gradient))" where
  "GetBackwardPass env GetGradientForOpCC gradient_registry ir ys =
     (case backward_loop env GetGradientForOpCC gradient_registry (length (ssa ir))
             (backward_start env ir ys) of
        Inl e \<Rightarrow> Inl e
      | Inr st \<Rightarrow>
          Inr (map (objs (bs_store st)) (all_gradient_ops st),
               (\<lambda>key. case all_input_to_grad st key of
                         Some NoGrad \<Rightarrow> None
                       | v \<Rightarrow> v)))"

text \<open>\<open>GradientRegistry.GetBackwardPass(operators, ys)\<close>.\<close>

definition GradientRegistry_GetBackwardPass ::
  "Env \<Rightarrow> native_rule \<Rightarrow> (string \<rightharpoonup> python_rule) \<Rightarrow> OperatorDef list
     \<Rightarrow> (BlobArg \<times> Gradient) list \<Rightarrow> error + (OperatorDef list \<times> (blob \<rightharpoonup> Gradient))" where
  "GradientRegistry_GetBackwardPass env GetGradientForOpCC gradient_registry operators ys =
     GetBackwardPass env GetGradientForOpCC gradient_registry (IR_init operators) ys"

section \<open>Vocabulary for the statements about accumulation\<close>

text \<open>
  The producing operator and output index of a dense generator, and of the
  indices and of the values of a sparse generator, when there is one.
\<close>

fun dense_producer :: "GradGen \<Rightarrow> (ref \<times> nat) option" where
  "dense_producer (GradGenMeta (Some r) idx g) = Some (r, idx)"
| "dense_producer (GradGenMeta None idx g) = None"
| "dense_producer (SparseGradGenMeta op_i idx_i op_v idx_v g) = None"

fun indices_producer :: "GradGen \<Rightarrow> (ref \<times> nat) option" where
  "indices_producer (SparseGradGenMeta (Some r) idx_i op_v idx_v g) = Some (r, idx_i)"
| "indices_producer (SparseGradGenMeta None idx_i op_v idx_v g) = None"
| "indices_producer (GradGenMeta grad_op idx g) = None"

fun values_producer :: "GradGen \<Rightarrow> (ref \<times> nat) option" where
  "values_producer (SparseGradGenMeta op_i idx_i (Some r) idx_v g) = Some (r, idx_v)"
| "values_producer (SparseGradGenMeta op_i idx_i None idx_v g) = None"
| "values_producer (GradGenMeta grad_op idx g) = None"

text \<open>The producers of a list of generators, in order.\<close>

definition producers :: "(GradGen \<Rightarrow> (ref \<times> nat) option) \<Rightarrow> GradGen list \<Rightarrow> (ref \<times> nat) list" where
  "producers f generators = List.map_filter f generators"

text \<open>How many of the first \<open>k\<close> generators have a producer.\<close>

definition producers_before :: "(GradGen \<Rightarrow> (ref \<times> nat) option) \<Rightarrow> nat \<Rightarrow> GradGen list \<Rightarrow> nat" where
  "producers_before f k generators = length (producers f (take k generators))"

text \<open>The output name of an operator of the store at an index.\<close>

definition output_name :: "heap \<Rightarrow> ref \<times> nat \<Rightarrow> blob" where
  "output_name h p = op_output (h (fst p)) ! snd p"

text \<open>The name a rename gives: \<open>'_' + name + '_autosplit_{}'.format(cnt)\<close>.\<close>

definition autosplit :: "blob \<Rightarrow> nat \<Rightarrow> blob" where
  "autosplit name cnt = ''_'' @ name @ ''_autosplit_'' @ str_nat cnt"

text \<open>An optional value as a list of at most one element.\<close>

fun opt_list :: "'a option \<Rightarrow> 'a list" where
  "opt_list None = []" | "opt_list (Some x) = [x]"

text \<open>
  The producers a sparse merge renames, in the order of the renames: for
  each generator its indices producer, then its values producer.
\<close>

fun sparse_producers :: "GradGen list \<Rightarrow> (ref \<times> nat) list" where
  "sparse_producers [] = []"
| "sparse_producers (g # gs) =
     opt_list (indices_producer g) @ opt_list (values_producer g) @ sparse_producers gs"

text \<open>
  What the \<open>k\<close>-th input of a \<open>Sum\<close> is for the \<open>k\<close>-th dense generator,
  given the store before (\<open>h\<close>) and after (\<open>h'\<close>) the merge, the base name
  and the number \<open>c\<close> of producers before it: the renamed output, which is
  also what the producing operator now writes, or the literal name, which
  differs from the base name.
\<close>

definition dense_ok :: "heap \<Rightarrow> heap \<Rightarrow> blob \<Rightarrow> nat \<Rightarrow> GradGen \<Rightarrow> blob \<Rightarrow> bool" where
  "dense_ok h h' base c gen name =
     (case gen of
        GradGenMeta (Some r) idx g \<Rightarrow>
          name = autosplit (output_name h (r, idx)) c \<and> output_name h' (r, idx) = name
      | GradGenMeta None idx (Dense s) \<Rightarrow> name = s \<and> name \<noteq> base
      | GradGenMeta None idx NoGrad \<Rightarrow> name = ''None'' \<and> name \<noteq> base
      | _ \<Rightarrow> False)"


text \<open>
  A dense generator as \<open>BuildGradientGenerators\<close> records it: no
  \<open>GradientSlice\<close>, and the output index of a producing operator in range.
\<close>

definition dense_wf :: "heap \<Rightarrow> GradGen \<Rightarrow> bool" where
  "dense_wf h gen =
     (case gen of
        GradGenMeta grad_op idx gr \<Rightarrow>
          (\<forall>a b. gr \<noteq> GradientSlice a b) \<and>
          (\<forall>r. grad_op = Some r \<longrightarrow> idx < length (op_output (h r)))
      | SparseGradGenMeta op_i idx_i op_v idx_v gr \<Rightarrow> False)"


section \<open>Vocabulary for the statements about the start of the backward pass\<close>

text \<open>
  The \<open>ConstantFill\<close> operators that \<open>_GetInitGradients\<close> creates, one for
  each target that is mapped to \<open>None\<close>, in the order of the items.
\<close>

definition seed_ops :: "Env \<Rightarrow> (BlobArg \<times> Gradient) list \<Rightarrow> OperatorDef list" where
  "seed_ops env ys =
     map (\<lambda>p. \<lparr>op_type = ''ConstantFill'',
                op_input = [RectifyInputOutput env (fst p)],
                op_output = [CurrentNameScope env @ str_of (fst p) @ ''_autogen_grad''],
                device_option = CurrentDeviceScope env,
                op_arg = [(''value'', FloatArg 1)]\<rparr>)
         (filter (\<lambda>p. snd p = NoGrad) ys)"

text \<open>
  The references to gradient operators that a generator holds, and the
  ledgers (and local tables of partial sparse generators) that hold no
  reference below \<open>k\<close>: the operators below \<open>k\<close> are then out of the reach of
  the renaming that accumulation does.
\<close>

fun gen_refs :: "GradGen \<Rightarrow> ref set" where
  "gen_refs (GradGenMeta grad_op idx g) = set_option grad_op"
| "gen_refs (SparseGradGenMeta op_i idx_i op_v idx_v g) = set_option op_i \<union> set_option op_v"

definition gens_above :: "nat \<Rightarrow> GradGen list \<Rightarrow> bool" where
  "gens_above k gens = (\<forall>gen \<in> set gens. \<forall>r \<in> gen_refs gen. k \<le> r)"

definition ledger_above :: "nat \<Rightarrow> IR \<Rightarrow> bool" where
  "ledger_above k ir = (\<forall>n v. gens_above k (gradient_generators ir n v))"

definition table_above :: "nat \<Rightarrow> sparse_table \<Rightarrow> bool" where
  "table_above k tbl = (\<forall>entry \<in> set tbl. gens_above k (snd entry))"

section \<open>Example inputs\<close>

text \<open>
  The environment with no name scope and no device scope active, visiting a
  set in the order of first occurrence.
\<close>

definition default_env :: Env where
  "default_env = \<lparr>CurrentNameScope = [], CurrentDeviceScope = None, set_order = remdups\<rparr>"

text \<open>A native rule table that knows no operator.\<close>

definition no_native :: native_rule where
  "no_native operator g_output = Inl (OtherException ''no gradient in C++'')"

text \<open>An operator record with no device option and no arguments.\<close>

definition mk_op :: "string \<Rightarrow> blob list \<Rightarrow> blob list \<Rightarrow> OperatorDef" where
  "mk_op t ins outs =
     \<lparr>op_type = t, op_input = ins, op_output = outs, device_option = None, op_arg = []\<rparr>"

text \<open>
  \<open>Y = F(X); Y = G(Y)\<close>, the second operator in place. The rule registered
  for \<open>F\<close> first recomputes \<open>Y\<close> and then reads it; the rule for \<open>G\<close> works
  on the gradient in place.
\<close>

definition inplace_net :: "OperatorDef list" where
  "inplace_net = [mk_op ''F'' [''X''] [''Y''], mk_op ''G'' [''Y''] [''Y'']]"


text \<open>
  A store with the gradient operators of \<open>T1 = F(X)\<close> and \<open>T2 = G(X)\<close>, both
  writing \<open>X_grad\<close>, and a ledger in which \<open>X\<close> at version 0 has these two
  contributions and a third one passed through under the name \<open>dZ\<close>.
\<close>

definition dense_heap :: heap where
  "dense_heap =
     (\<lambda>r. mk_op [] [] [])
       (0 := mk_op ''FGradient'' [''dT1'', ''X''] [''X_grad''],
        1 := mk_op ''GGradient'' [''dT2'', ''X''] [''X_grad''])"

definition dense_generators :: "GradGen list" where
  "dense_generators =
     [GradGenMeta (Some 0) 0 (Dense ''X_grad''),
      GradGenMeta (Some 1) 0 (Dense ''X_grad''),
      GradGenMeta None 0 (Dense ''dZ'')]"

definition ledger_ir :: "GradGen list \<Rightarrow> IR" where
  "ledger_ir generators =
     IR_empty\<lparr>gradient_generators :=
       (\<lambda>n v. if n = ''X'' \<and> v = 0 then generators else [])\<rparr>"

text \<open>
  A store with two operators that each write the indices and the values of
  a sparse gradient of \<open>W\<close>, and a ledger with their two contributions and a
  third sparse one passed through as \<open>(I, V)\<close>.
\<close>

definition sparse_heap :: heap where
  "sparse_heap =
     (\<lambda>r. mk_op [] [] [])
       (0 := mk_op ''GatherGradient'' [''idx1'', ''dA''] [''W_grad_indices'', ''W_grad_values''],
        1 := mk_op ''GatherGradient'' [''idx2'', ''dB''] [''W_grad_indices'', ''W_grad_values''])"

definition sparse_generators :: "GradGen list" where
  "sparse_generators =
     [SparseGradGenMeta (Some 0) 0 (Some 0) 1 (GradientSlice ''W_grad_indices'' ''W_grad_values''),
      SparseGradGenMeta (Some 1) 0 (Some 1) 1 (GradientSlice ''W_grad_indices'' ''W_grad_values''),
      SparseGradGenMeta None 0 None 0 (GradientSlice ''I'' ''V'')]"

text \<open>
  Two producing operators whose device options compare equal as messages:
  the first has the field unset, the second has it set to the empty
  message. In \<open>cuda_heap\<close> the second is placed on a GPU instead.
\<close>

definition unset_then_set_heap :: heap where
  "unset_then_set_heap =
     (\<lambda>r. mk_op [] [] [])
       (0 := mk_op ''FGradient'' [''dT1'', ''X''] [''X_grad''],
        1 := (mk_op ''GGradient'' [''dT2'', ''X''] [''X_grad''])
               \<lparr>device_option := Some (DeviceOption None None None)\<rparr>)"

definition cuda_heap :: heap where
  "cuda_heap =
     (\<lambda>r. mk_op [] [] [])
       (0 := mk_op ''FGradient'' [''dT1'', ''X''] [''X_grad''],
        1 := (mk_op ''GGradient'' [''dT2'', ''X''] [''X_grad''])
               \<lparr>device_option := Some (DeviceOption (Some 1) (Some 0) None)\<rparr>)"

definition two_dense_generators :: "GradGen list" where
  "two_dense_generators =
     [GradGenMeta (Some 0) 0 (Dense ''X_grad''), GradGenMeta (Some 1) 0 (Dense ''X_grad'')]"

text \<open>A ledger in which the passed-through contribution has the name of the first produced one.\<close>

definition conflict_generators :: "GradGen list" where
  "conflict_generators =
     [GradGenMeta (Some 0) 0 (Dense ''X_grad''), GradGenMeta None 0 (Dense ''X_grad'')]"

text \<open>A sparse ledger whose first generator has a values producer only.\<close>

definition values_first_generators :: "GradGen list" where
  "values_first_generators =
     [SparseGradGenMeta None 0 (Some 0) 1 (GradientSlice ''I'' ''W_grad_values''),
      SparseGradGenMeta (Some 1) 0 (Some 1) 1 (GradientSlice ''W_grad_indices'' ''W_grad_values'')]"

text \<open>Both producing operators placed on the same GPU.\<close>

definition both_cuda_heap :: heap where
  "both_cuda_heap =
     (\<lambda>r. mk_op [] [] [])
       (0 := (mk_op ''FGradient'' [''dT1'', ''X''] [''X_grad''])
               \<lparr>device_option := Some (DeviceOption (Some 1) (Some 0) None)\<rparr>,
        1 := (mk_op ''GGradient'' [''dT2'', ''X''] [''X_grad''])
               \<lparr>device_option := Some (DeviceOption (Some 1) (Some 0) None)\<rparr>)"

text \<open>
  \<open>Y = Mul(X, X)\<close>, with a rule that, like the native gradient makers, names
  the gradient of every input \<open><input>_grad\<close> and emits one operator
  writing them all.
\<close>

definition square_net :: "OperatorDef list" where
  "square_net = [mk_op ''Mul'' [''X'', ''X''] [''Y'']]"

definition grad_names_rule :: python_rule where
  "grad_names_rule operator g_output =
     (case g_output of
        [Dense dy] \<Rightarrow>
          Inr (OpsSingle (mk_op (op_type operator @ ''Gradient'') (dy # op_input operator)
                            (map (\<lambda>x. x @ ''_grad'') (op_input operator))),
               map (\<lambda>x. Dense (x @ ''_grad'')) (op_input operator))
      | _ \<Rightarrow> Inl (OtherException ''unsupported''))"

definition square_registry :: "string \<rightharpoonup> python_rule" where
  "square_registry = [''Mul'' \<mapsto> grad_names_rule]"

text \<open>
  \<open>A = F(X); B = Gather(X, I); Y = Add(A, B)\<close>. The gradient of \<open>Add\<close>
  passes the output gradient through to both inputs, that of \<open>Gather\<close> is
  sparse in \<open>X\<close>, that of \<open>F\<close> dense.
\<close>

definition mixed_net :: "OperatorDef list" where
  "mixed_net =
     [mk_op ''F'' [''X''] [''A''],
      mk_op ''Gather'' [''X'', ''I''] [''B''],
      mk_op ''Add'' [''A'', ''B''] [''Y'']]"

definition mixed_registry :: "string \<rightharpoonup> python_rule" where
  "mixed_registry =
     [''Add'' \<mapsto> (\<lambda>operator g_output.
         (case g_output of
            [Dense dy] \<Rightarrow> Inr (OpsNone, [Dense dy, Dense dy])
          | _ \<Rightarrow> Inl (OtherException ''unsupported''))),
      ''Gather'' \<mapsto> (\<lambda>operator g_output.
         (case g_output of
            [Dense dy] \<Rightarrow>
              Inr (OpsSingle (mk_op ''GatherGradient'' [''I'', dy]
                                [''X_grad_indices'', ''X_grad_values'']),
                   [GradientSlice ''X_grad_indices'' ''X_grad_values'', NoGrad])
          | _ \<Rightarrow> Inl (OtherException ''unsupported''))),
      ''F'' \<mapsto> grad_names_rule]"

text \<open>
  \<open>T1 = F(X); T2 = G(X); Y = Add(T1, T2)\<close>, and the state of the reverse
  walk's tables when it reaches \<open>F\<close> with a given ledger for \<open>X\<close>.
\<close>

definition fanout_net :: "OperatorDef list" where
  "fanout_net =
     [mk_op ''F'' [''X''] [''T1''],
      mk_op ''G'' [''X''] [''T2''],
      mk_op ''Add'' [''T1'', ''T2''] [''Y'']]"

definition fanout_ir :: "GradGen list \<Rightarrow> IR" where
  "fanout_ir generators =
     (IR_init fanout_net)\<lparr>gradient_generators := gradient_generators (ledger_ir generators)\<rparr>"

text \<open>A ledger with one sparse and one dense contribution.\<close>

definition mixed_generators :: "GradGen list" where
  "mixed_generators =
     [SparseGradGenMeta (Some 0) 0 (Some 0) 1 (GradientSlice ''X_grad_indices'' ''X_grad_values''),
      GradGenMeta (Some 1) 0 (Dense ''X_grad'')]"

text \<open>
  The reverse walk over \<open>mixed_net\<close> for the target \<open>Y\<close> with gradient \<open>dY\<close>,
  after the operators at indices 2 and 1 have been processed.
\<close>

definition mixed_walk :: BackwardState where
  "mixed_walk =
     projr (backward_step default_env no_native mixed_registry 1
       (projr (backward_step default_env no_native mixed_registry 2
          (backward_start default_env (IR_init mixed_net) [(Name ''Y'', Dense ''dY'')]))))"

section \<open>Properties of the forward replay\<close>

lemma count_list_pos: "b \<in> set xs \<Longrightarrow> 0 < count_list xs b"
  by (induction xs) auto

lemma Play_input_frontier:
  "frontier (snd (Play_input n st s)) =
     (case frontier (snd st) s of
        None \<Rightarrow> (frontier (snd st))(s \<mapsto> 0)
      | Some v \<Rightarrow> frontier (snd st))"
  by (simp add: Play_input_def Let_def frontier_get_def split: option.splits)

lemma Play_input_ssa: "ssa (snd (Play_input n st s)) = ssa (snd st)"
  by (simp add: Play_input_def Let_def)

lemma Play_inputs_frontier:
  "frontier (snd (foldl (Play_input n) st xs)) b =
     (case frontier (snd st) b of
        None \<Rightarrow> (if b \<in> set xs then Some 0 else None)
      | Some v \<Rightarrow> Some v)"
proof (induction xs arbitrary: st)
  case Nil
  then show ?case by (simp split: option.splits)
next
  case (Cons x xs)
  show ?case
    by (simp add: Cons.IH Play_input_frontier split: option.splits)
qed

lemma Play_inputs_ssa: "ssa (snd (foldl (Play_input n) st xs)) = ssa (snd st)"
  by (induction xs arbitrary: st) (simp_all add: Play_input_ssa)

lemma Play_output_frontier:
  "snd (Play_output st s) = (snd st)(s \<mapsto> (case snd st s of None \<Rightarrow> 0 | Some v \<Rightarrow> v + 1))"
  by (auto simp add: Play_output_def Let_def frontier_get_def split: option.splits)

lemma Play_outputs_frontier:
  "snd (foldl Play_output st xs) b =
     (case snd st b of
        None \<Rightarrow> (if b \<in> set xs then Some (count_list xs b - 1) else None)
      | Some v \<Rightarrow> Some (v + count_list xs b))"
proof (induction xs arbitrary: st)
  case Nil
  then show ?case by (simp split: option.splits)
next
  case (Cons x xs)
  have pos: "b \<in> set xs \<Longrightarrow> 0 < count_list xs b"
    by (rule count_list_pos)
  show ?case using pos
    by (auto simp add: Cons.IH Play_output_frontier split: option.splits)
qed

text \<open>The effect of replaying one operator on the frontier entry of a blob.\<close>

lemma Play_frontier:
  "frontier (Play ir x) b =
     (case frontier ir b of
        None \<Rightarrow> (if b \<in> set (op_input x) then Some (count_list (op_output x) b)
                 else if b \<in> set (op_output x) then Some (count_list (op_output x) b - 1)
                 else None)
      | Some v \<Rightarrow> Some (v + count_list (op_output x) b))"
  by (simp add: Play_def Let_def Play_outputs_frontier Play_inputs_frontier split: option.splits)

lemma IR_init_snoc: "IR_init (xs @ [x]) = Play (IR_init xs) x"
  by (simp add: IR_init_def)

lemma created_by_snoc:
  "created_by b (xs @ [x]) =
     (if mentioned b xs then created_by b xs
      else b \<notin> set (op_input x) \<and> b \<in> set (op_output x))"
  by (induction xs) (auto simp: mentioned_def)

lemma created_by_count: "created_by b xs \<Longrightarrow> 0 < output_count b xs"
  by (induction xs) (auto simp: output_count_def count_list_pos split: if_splits)

lemma output_count_snoc:
  "output_count b (xs @ [x]) = output_count b xs + count_list (op_output x) b"
  by (simp add: output_count_def)

lemma not_mentioned_count: "\<not> mentioned b xs \<Longrightarrow> output_count b xs = 0"
  by (auto simp: mentioned_def output_count_def count_list_0_iff)

lemma mentioned_snoc:
  "mentioned b (xs @ [x]) =
     (mentioned b xs \<or> b \<in> set (op_input x) \<or> b \<in> set (op_output x))"
  by (auto simp: mentioned_def)

text \<open>
  The frontier after replaying a whole sequence: absent for a blob never
  mentioned; otherwise the number of writes, less one for a blob the sequence
  created (its first write gives version 0).
\<close>

lemma IR_init_frontier:
  "frontier (IR_init xs) b =
     (if mentioned b xs
      then Some (output_count b xs - (if created_by b xs then 1 else 0))
      else None)"
proof (induction xs rule: rev_induct)
  case Nil
  then show ?case by (simp add: IR_init_def IR_empty_def mentioned_def)
next
  case (snoc x xs)
  show ?case
  proof (cases "mentioned b xs")
    case True
    have "created_by b xs \<Longrightarrow> 0 < output_count b xs" by (rule created_by_count)
    with True show ?thesis
      by (auto simp add: IR_init_snoc Play_frontier snoc.IH created_by_snoc
          output_count_snoc mentioned_snoc)
  next
    case False
    then show ?thesis
      by (auto simp add: IR_init_snoc Play_frontier snoc.IH created_by_snoc
          output_count_snoc mentioned_snoc not_mentioned_count count_list_0_iff)
  qed
qed

lemma frontier_of_IR_init:
  "frontier_of (IR_init xs) b = output_count b xs - (if created_by b xs then 1 else 0)"
  by (simp add: frontier_of_def frontier_get_def IR_init_frontier not_mentioned_count
      split: option.splits)

lemma frontier_of_Play: "frontier_of ir b \<le> frontier_of (Play ir x) b"
  by (simp add: frontier_of_def frontier_get_def Play_frontier split: option.splits)

text \<open>
  C8, as the code has it. The frontier version of a blob never decreases from
  one replayed operator to the next. It equals the number of times the blob
  appeared as an output among operators \<open>0..i\<close> only for a blob that was read
  (or written in place) before its first pure write; a blob that the
  sequence itself creates starts at version 0, so its frontier is that count
  less one.
\<close>

theorem frontier_monotone_and_count:
  assumes "i < length operators"
  shows "frontier_of (IR_init (take i operators)) b
           \<le> frontier_of (IR_init (take (Suc i) operators)) b
         \<and> frontier_of (IR_init (take (Suc i) operators)) b
           = output_count b (take (Suc i) operators)
             - (if created_by b (take (Suc i) operators) then 1 else 0)"
proof -
  have "take (Suc i) operators = take i operators @ [operators ! i]"
    using assms by (rule take_Suc_conv_app_nth)
  then have step: "IR_init (take (Suc i) operators) = Play (IR_init (take i operators)) (operators ! i)"
    by (simp add: IR_init_snoc)
  have mono: "frontier_of (IR_init (take i operators)) b
                \<le> frontier_of (IR_init (take (Suc i) operators)) b"
    unfolding step by (rule frontier_of_Play)
  have cnt: "frontier_of (IR_init (take (Suc i) operators)) b
               = output_count b (take (Suc i) operators)
                 - (if created_by b (take (Suc i) operators) then 1 else 0)"
    by (rule frontier_of_IR_init)
  from mono cnt show ?thesis by (rule conjI)
qed

theorem frontier_monotone_and_count_witness:
  "frontier_of (IR_init (take 1
      [\<lparr>op_type = ''Relu'', op_input = [''X''], op_output = [''Y''],
        device_option = None, op_arg = []\<rparr>,
       \<lparr>op_type = ''Relu'', op_input = [''Y''], op_output = [''Y''],
        device_option = None, op_arg = []\<rparr>])) ''Y'' = 0
   \<and> frontier_of (IR_init (take (Suc 1)
      [\<lparr>op_type = ''Relu'', op_input = [''X''], op_output = [''Y''],
        device_option = None, op_arg = []\<rparr>,
       \<lparr>op_type = ''Relu'', op_input = [''Y''], op_output = [''Y''],
        device_option = None, op_arg = []\<rparr>])) ''Y'' = 1"
  using frontier_monotone_and_count [of 1
      "[\<lparr>op_type = ''Relu'', op_input = [''X''], op_output = [''Y''],
        device_option = None, op_arg = []\<rparr>,
       \<lparr>op_type = ''Relu'', op_input = [''Y''], op_output = [''Y''],
        device_option = None, op_arg = []\<rparr>]" "''Y''"]
  by (simp add: output_count_def frontier_of_IR_init)

text \<open>
  The claim as written fails on the smallest input: after replaying the single
  operator \<open>Y = Relu(X)\<close>, blob \<open>Y\<close> has appeared once as an output and its
  frontier version is 0.
\<close>

theorem frontier_count_counterexample:
  "frontier_of (IR_init
      [\<lparr>op_type = ''Relu'', op_input = [''X''], op_output = [''Y''],
        device_option = None, op_arg = []\<rparr>]) ''Y'' = 0
   \<and> output_count ''Y''
      [\<lparr>op_type = ''Relu'', op_input = [''X''], op_output = [''Y''],
        device_option = None, op_arg = []\<rparr>] = 1"
  by (simp add: IR_init_def IR_empty_def Play_def Play_input_def Play_output_def
      frontier_get_def frontier_of_def output_count_def Let_def)

section \<open>Properties of the gradient dispatch\<close>

text \<open>
  C6. \<open>GetGradientForOp\<close> tries the native rule first and returns its
  operators as they are. If the native rule raises \<open>e\<close>, the registry is
  consulted under the operator's type: with no entry the call fails with the
  exception that names the type and quotes \<open>e\<close> (so does a \<open>KeyError\<close>
  raised by the registered rule, any other exception of the rule
  propagates); a rule result \<open>None\<close> becomes the empty list, a single
  operator a one-element list, and a list is kept.
\<close>

theorem GetGradientForOp_dispatch:
  "(GetGradientForOpCC operator g_output = Inr (ops, g_input) \<longrightarrow>
      GetGradientForOp GetGradientForOpCC gradient_registry operator g_output = Inr (ops, g_input))
   \<and> (GetGradientForOpCC operator g_output = Inl e \<longrightarrow>
        GetGradientForOp GetGradientForOpCC gradient_registry operator g_output =
          (case gradient_registry (op_type operator) of
             None \<Rightarrow> Inl (NoGradientRegistered (op_type operator) e)
           | Some rule \<Rightarrow>
              (case rule operator g_output of
                 Inl (KeyError k) \<Rightarrow> Inl (NoGradientRegistered (op_type operator) e)
               | Inl e' \<Rightarrow> Inl e'
               | Inr (OpsNone, g_input') \<Rightarrow> Inr ([], g_input')
               | Inr (OpsSingle x, g_input') \<Rightarrow> Inr ([x], g_input')
               | Inr (OpsList xs, g_input') \<Rightarrow> Inr (xs, g_input'))))"
  by (auto simp add: GetGradientForOp_def
      split: sum.splits option.splits error.splits RuleOps.splits prod.splits)

theorem GetGradientForOp_dispatch_witness:
  "GetGradientForOp no_native
      [''Mul'' \<mapsto> (\<lambda>x g. Inr (OpsSingle (mk_op ''MulGradient'' [''A'', ''B'', ''dY''] [''dA'', ''dB'']),
                              [Dense ''dA'', Dense ''dB'']))]
      (mk_op ''Mul'' [''A'', ''B''] [''Y'']) [Dense ''dY'']
    = Inr ([mk_op ''MulGradient'' [''A'', ''B'', ''dY''] [''dA'', ''dB'']],
           [Dense ''dA'', Dense ''dB''])
   \<and> GetGradientForOp no_native Map.empty (mk_op ''Mul'' [''A'', ''B''] [''Y'']) [Dense ''dY'']
    = Inl (NoGradientRegistered ''Mul'' (OtherException ''no gradient in C++''))
   \<and> GetGradientForOp (\<lambda>x g. Inr ([x], g)) Map.empty
        (mk_op ''Mul'' [''A'', ''B''] [''Y'']) [Dense ''dY'']
    = Inr ([mk_op ''Mul'' [''A'', ''B''] [''Y'']], [Dense ''dY''])"
  using GetGradientForOp_dispatch [of no_native
      "mk_op ''Mul'' [''A'', ''B''] [''Y'']" "[Dense ''dY'']" "[]" "[]"
      "[''Mul'' \<mapsto> (\<lambda>x g. Inr (OpsSingle (mk_op ''MulGradient'' [''A'', ''B'', ''dY''] [''dA'', ''dB'']),
                              [Dense ''dA'', Dense ''dB'']))]"
      "OtherException ''no gradient in C++''"]
    GetGradientForOp_dispatch [of no_native
      "mk_op ''Mul'' [''A'', ''B''] [''Y'']" "[Dense ''dY'']" "[]" "[]"
      "Map.empty" "OtherException ''no gradient in C++''"]
    GetGradientForOp_dispatch [of "\<lambda>x g. Inr ([x], g)"
      "mk_op ''Mul'' [''A'', ''B''] [''Y'']" "[Dense ''dY'']"
      "[mk_op ''Mul'' [''A'', ''B''] [''Y'']]" "[Dense ''dY'']"
      "Map.empty" "OtherException ''no gradient in C++''"]
  by (simp add: no_native_def mk_op_def)

section \<open>Properties of the liveness check\<close>



lemmas play_defs = IR_init_def IR_empty_def Play_def Play_input_def Play_output_def
  Let_def frontier_get_def

lemmas pass_defs = GradientRegistry_GetBackwardPass_def GetBackwardPass_def backward_start_def
  GetInitGradients_def GetInitGradients_step_def backward_step_def
  GenerateGradientsForForwardOp_def GetGradientForOp_def BuildGradientGenerators_def
  DoGradientAccumulation_def DoGradientAccumulation_step_def CheckGradientOperatorInput_def
  ssa_at_def list_get_def dict_get_def GetIndexFromGradientList_def grad_get_def
  new_input_to_grad_step_def record_output_def append_generator_def
  VerifyGradientGenerators_def MakeSumOps_def MakeDenseSumOps_def MakeSparseSumOps_def
  contribution_def DisambiguateGradOpOutput_def CheckSumOpsConflict_def CreateOperator_def
  ScopedName_def output_at_def device_option_of_def

lemmas example_defs = default_env_def no_native_def mk_op_def



section \<open>Properties of the accumulation synthesizer\<close>

lemma contribution_Some:
  assumes "contribution base (h, inp, cnt) (Some r) idx g = Inr (h', inp', cnt')"
  shows "idx < length (op_output (h r))"
    and "inp' = inp @ [autosplit (output_name h (r, idx)) cnt]"
    and "cnt' = Suc cnt"
    and "output_name h' (r, idx) = autosplit (output_name h (r, idx)) cnt"
    and "p \<noteq> (r, idx) \<Longrightarrow> output_name h' p = output_name h p"
    and "device_option (h' q) = device_option (h q)"
    and "length (op_output (h' q)) = length (op_output (h q))"
  using assms
  by (auto simp: contribution_def DisambiguateGradOpOutput_def Let_def autosplit_def
      output_name_def nth_list_update split: if_splits)

lemma contribution_None:
  assumes "contribution base (h, inp, cnt) None idx g = Inr (h', inp', cnt')"
  shows "h' = h" and "inp' = inp @ [g]" and "cnt' = cnt" and "g \<noteq> base"
  using assms
  by (auto simp: contribution_def CheckSumOpsConflict_def split: if_splits)

lemma producers_Cons:
  "producers f (g # gs) = (case f g of None \<Rightarrow> producers f gs | Some p \<Rightarrow> p # producers f gs)"
  by (simp add: producers_def List.map_filter_simps split: option.splits)

lemma producers_Nil: "producers f [] = []"
  by (simp add: producers_def List.map_filter_simps)

lemma producers_before_0: "producers_before f 0 gs = 0"
  by (simp add: producers_before_def producers_Nil)

lemma producers_before_Suc:
  "producers_before f (Suc k) (g # gs) =
     (case f g of None \<Rightarrow> 0 | Some p \<Rightarrow> 1) + producers_before f k gs"
  by (simp add: producers_before_def producers_Cons split: option.splits)

lemma set_producers: "set (producers f gens) = {p. \<exists>g \<in> set gens. f g = Some p}"
  by (induction gens) (auto simp: producers_Cons producers_Nil split: option.splits)

lemma nth_producer: "j < length gens \<Longrightarrow> f (gens ! j) = Some p \<Longrightarrow> p \<in> set (producers f gens)"
  by (auto simp: set_producers)

lemma dense_loop_frame:
  "MakeDenseSumOps_loop base (h, inp, cnt) gens = Inr (h', inp', cnt') \<Longrightarrow>
     (p \<notin> set (producers dense_producer gens) \<longrightarrow> output_name h' p = output_name h p)
     \<and> device_option (h' q) = device_option (h q)
     \<and> length (op_output (h' q)) = length (op_output (h q))"
proof (induction gens arbitrary: h inp cnt)
  case Nil
  then show ?case by simp
next
  case (Cons gen gens)
  show ?case
  proof (cases gen)
    case (SparseGradGenMeta a b c d e)
    with Cons.prems show ?thesis by simp
  next
    case (GradGenMeta grad_op idx g)
    from Cons.prems GradGenMeta obtain s st1 where
      c: "contribution base (h, inp, cnt) grad_op idx s = Inr st1"
      and l: "MakeDenseSumOps_loop base st1 gens = Inr (h', inp', cnt')"
      by (auto split: Gradient.splits sum.splits)
    obtain h1 inp1 cnt1 where st1: "st1 = (h1, inp1, cnt1)" by (cases st1) auto
    note ih = Cons.IH [OF l [unfolded st1]]
    show ?thesis
    proof (cases grad_op)
      case None
      with c st1 have "h1 = h" by (auto dest: contribution_None)
      with ih None GradGenMeta show ?thesis by (simp add: producers_Cons)
    next
      case (Some r)
      note cs = contribution_Some [OF c [unfolded st1 Some]]
      from ih cs(5) cs(6) cs(7) Some GradGenMeta show ?thesis
        by (auto simp add: producers_Cons)
    qed
  qed
qed

lemma dense_loop_spec:
  "MakeDenseSumOps_loop base (h, inp, cnt) gens = Inr (h', inp', cnt') \<Longrightarrow>
   distinct (producers dense_producer gens) \<Longrightarrow>
     (\<exists>new. inp' = inp @ new \<and> length new = length gens
        \<and> (\<forall>k < length gens.
              dense_ok h h' base (cnt + producers_before dense_producer k gens) (gens ! k) (new ! k)))"
proof (induction gens arbitrary: h inp cnt)
  case Nil
  then show ?case by simp
next
  case (Cons gen gens)
  show ?case
  proof (cases gen)
    case (SparseGradGenMeta a b c d e)
    with Cons.prems show ?thesis by simp
  next
    case (GradGenMeta grad_op idx g)
    from Cons.prems(1) GradGenMeta obtain s st1 where
      c: "contribution base (h, inp, cnt) grad_op idx s = Inr st1"
      and l: "MakeDenseSumOps_loop base st1 gens = Inr (h', inp', cnt')"
      and s: "(g = NoGrad \<and> s = ''None'') \<or> g = Dense s"
      by (auto split: Gradient.splits sum.splits)
    obtain h1 inp1 cnt1 where st1: "st1 = (h1, inp1, cnt1)" by (cases st1) auto
    from Cons.prems(2) have d: "distinct (producers dense_producer gens)"
      by (simp add: producers_Cons split: option.splits)
    from Cons.IH [OF l [unfolded st1] d] obtain new where
      new: "inp' = inp1 @ new" "length new = length gens"
      and ok: "\<forall>k < length gens.
           dense_ok h1 h' base (cnt1 + producers_before dense_producer k gens) (gens ! k) (new ! k)"
      by blast
    note fr = dense_loop_frame [OF l [unfolded st1]]
    show ?thesis
    proof (cases grad_op)
      case None
      note cn = contribution_None [OF c [unfolded st1 None]]
      have "inp' = inp @ (s # new)" using new cn by simp
      moreover have "length (s # new) = length (gen # gens)" using new by simp
      moreover have "\<forall>k < length (gen # gens).
         dense_ok h h' base (cnt + producers_before dense_producer k (gen # gens))
           ((gen # gens) ! k) ((s # new) ! k)"
      proof (intro allI impI)
        fix k assume k: "k < length (gen # gens)"
        show "dense_ok h h' base (cnt + producers_before dense_producer k (gen # gens))
           ((gen # gens) ! k) ((s # new) ! k)"
        proof (cases k)
          case 0
          with s cn GradGenMeta None show ?thesis
            by (auto simp: dense_ok_def)
        next
          case (Suc j)
          with k ok cn GradGenMeta None show ?thesis
            by (simp add: producers_before_Suc)
        qed
      qed
      ultimately show ?thesis by blast
    next
      case (Some r)
      note cs = contribution_Some [OF c [unfolded st1 Some]]
      let ?n = "autosplit (output_name h (r, idx)) cnt"
      from Cons.prems(2) GradGenMeta Some have notin: "(r, idx) \<notin> set (producers dense_producer gens)"
        by (simp add: producers_Cons)
      have "inp' = inp @ (?n # new)" using new cs by simp
      moreover have "length (?n # new) = length (gen # gens)" using new by simp
      moreover have "\<forall>k < length (gen # gens).
         dense_ok h h' base (cnt + producers_before dense_producer k (gen # gens))
           ((gen # gens) ! k) ((?n # new) ! k)"
      proof (intro allI impI)
        fix k assume k: "k < length (gen # gens)"
        show "dense_ok h h' base (cnt + producers_before dense_producer k (gen # gens))
           ((gen # gens) ! k) ((?n # new) ! k)"
        proof (cases k)
          case 0
          from fr [of "(r, idx)"] notin cs(4) have "output_name h' (r, idx) = ?n" by simp
          with 0 GradGenMeta Some show ?thesis
            by (simp add: dense_ok_def producers_before_0)
        next
          case (Suc j)
          with k have j: "j < length gens" by simp
          from ok j have okj: "dense_ok h1 h' base (cnt1 + producers_before dense_producer j gens) (gens ! j) (new ! j)"
            by blast
          have "dense_ok h h' base (Suc cnt + producers_before dense_producer j gens) (gens ! j) (new ! j)"
          proof (cases "dense_producer (gens ! j)")
            case None
            with okj cs(3) show ?thesis
              by (auto simp: dense_ok_def split: GradGen.splits option.splits Gradient.splits)
          next
            case (Some p)
            have "p \<in> set (producers dense_producer gens)"
              using j Some by (rule nth_producer)
            with notin have "p \<noteq> (r, idx)" by auto
            with okj cs(3) cs(5) [of p] Some show ?thesis
              by (auto simp: dense_ok_def split: GradGen.splits option.splits Gradient.splits)
          qed
          with Suc GradGenMeta \<open>grad_op = Some r\<close> show ?thesis
            by (simp add: producers_before_Suc)
        qed
      qed
      ultimately show ?thesis by blast
    qed
  qed
qed

lemma contribution_step:
  assumes "contribution base (h, inp, cnt) opr idx g = Inr (h1, inp1, cnt1)"
  shows "\<exists>name. inp1 = inp @ [name]
           \<and> cnt1 = cnt + length (opt_list opr)
           \<and> (case opr of
                Some r \<Rightarrow> name = autosplit (output_name h (r, idx)) cnt
                           \<and> output_name h1 (r, idx) = name
                           \<and> (\<forall>p. p \<noteq> (r, idx) \<longrightarrow> output_name h1 p = output_name h p)
              | None \<Rightarrow> name = g \<and> g \<noteq> base \<and> h1 = h)
           \<and> (\<forall>q. device_option (h1 q) = device_option (h q))
           \<and> (\<forall>q. length (op_output (h1 q)) = length (op_output (h q)))"
proof (cases opr)
  case None
  with contribution_None [OF assms [unfolded None]] show ?thesis by simp
next
  case (Some r)
  note cs = contribution_Some [OF assms [unfolded Some]]
  from cs(2) cs(3) cs(4) cs(5) cs(6) cs(7) Some show ?thesis by auto
qed

lemma sparse_unfold:
  assumes "MakeSparseSumOps_loop base (h, (il, ci), (vl, cv))
             (SparseGradGenMeta op_i idx_i op_v idx_v g # gens) = Inr res"
  shows "\<exists>gi gv h1 il1 ci1 h2 vl1 cv1.
           contribution base (h, il, ci) op_i idx_i gi = Inr (h1, il1, ci1)
         \<and> contribution base (h1, vl, cv) op_v idx_v gv = Inr (h2, vl1, cv1)
         \<and> (op_i = None \<longrightarrow> (\<exists>v. g = GradientSlice gi v))
         \<and> (op_v = None \<longrightarrow> (\<exists>i. g = GradientSlice i gv))
         \<and> MakeSparseSumOps_loop base (h2, (il1, ci1), (vl1, cv1)) gens = Inr res"
  using assms
  apply (cases op_i; cases op_v; cases g)
             apply (auto split: sum.splits prod.splits)
       apply blast+
  done


lemma indices_producer_Some:
  "indices_producer gen = Some p \<longleftrightarrow>
     (\<exists>r idx_i op_v idx_v g. gen = SparseGradGenMeta (Some r) idx_i op_v idx_v g \<and> p = (r, idx_i))"
  by (cases gen rule: indices_producer.cases) auto

lemma values_producer_Some:
  "values_producer gen = Some p \<longleftrightarrow>
     (\<exists>r idx_i op_i idx_v g. gen = SparseGradGenMeta op_i idx_i (Some r) idx_v g \<and> p = (r, idx_v))"
  by (cases gen rule: values_producer.cases) auto


lemma sparse_loop_frame:
  "MakeSparseSumOps_loop base (h, (il, ci), (vl, cv)) gens = Inr (h', res) \<Longrightarrow>
     (p \<notin> set (sparse_producers gens) \<longrightarrow> output_name h' p = output_name h p)
     \<and> device_option (h' q) = device_option (h q)
     \<and> length (op_output (h' q)) = length (op_output (h q))"
proof (induction gens arbitrary: h il ci vl cv)
  case Nil
  then show ?case by simp
next
  case (Cons gen gens)
  show ?case
  proof (cases gen)
    case (GradGenMeta a b c)
    with Cons.prems show ?thesis by simp
  next
    case (SparseGradGenMeta op_i idx_i op_v idx_v g)
    from sparse_unfold [OF Cons.prems [unfolded SparseGradGenMeta]]
    obtain gi gv h1 il1 ci1 h2 vl1 cv1 where
      c1: "contribution base (h, il, ci) op_i idx_i gi = Inr (h1, il1, ci1)"
      and c2: "contribution base (h1, vl, cv) op_v idx_v gv = Inr (h2, vl1, cv1)"
      and l: "MakeSparseSumOps_loop base (h2, (il1, ci1), (vl1, cv1)) gens = Inr (h', res)"
      by blast
    note ih = Cons.IH [OF l]
    note s1 = contribution_step [OF c1]
    note s2 = contribution_step [OF c2]
    have a: "p \<notin> set (opt_list (indices_producer gen)) \<Longrightarrow> output_name h1 p = output_name h p"
      using s1 SparseGradGenMeta by (cases op_i; cases p) auto
    have b: "p \<notin> set (opt_list (values_producer gen)) \<Longrightarrow> output_name h2 p = output_name h1 p"
      using s2 SparseGradGenMeta by (cases op_v; cases p) auto
    have d: "device_option (h2 q) = device_option (h q)"
      and e: "length (op_output (h2 q)) = length (op_output (h q))"
      using s1 s2 by auto
    from ih a b d e show ?thesis by auto
  qed
qed





lemma output_at_Inr: "output_at h r idx = Inr s \<Longrightarrow> s = output_name h (r, idx) \<and> idx < length (op_output (h r))"
  by (simp add: output_at_def list_get_def output_name_def split: if_splits)

lemma GetSumOpOutputName_dense:
  "\<forall>x \<in> set gens. is_GradGenMeta x \<Longrightarrow>
   GetSumOpOutputName h gens n =
     (case producers dense_producer gens of
        [] \<Rightarrow> Inr (n @ ''_grad'')
      | p # ps \<Rightarrow> output_at h (fst p) (snd p))"
proof (induction gens)
  case Nil
  then show ?case by (simp add: producers_Nil)
next
  case (Cons gen gens)
  then show ?case
    by (cases gen rule: dense_producer.cases) (simp_all add: producers_Cons)
qed

lemma SetSumOpsDeviceOption_first:
  "SetSumOpsDeviceOption h sum_ops gens =
     (case List.map_filter device_source gens of
        [] \<Rightarrow> sum_ops
      | r # rs \<Rightarrow>
         (case device_option (h r) of
            None \<Rightarrow> sum_ops
          | Some d \<Rightarrow> map (\<lambda>x. x\<lparr>device_option := Some d\<rparr>) sum_ops))"
  by (induction gens) (auto simp: List.map_filter_simps split: option.splits)

lemma SetSumOpsDeviceOption_fields:
  "map op_type (SetSumOpsDeviceOption h sum_ops gens) = map op_type sum_ops"
  "map op_input (SetSumOpsDeviceOption h sum_ops gens) = map op_input sum_ops"
  "map op_output (SetSumOpsDeviceOption h sum_ops gens) = map op_output sum_ops"
  "map op_arg (SetSumOpsDeviceOption h sum_ops gens) = map op_arg sum_ops"
  by (simp_all add: SetSumOpsDeviceOption_first comp_def split: list.splits option.splits)

lemma MakeSumOps_dense_unfold:
  assumes "\<forall>x \<in> set (gradient_generators ir n v). is_GradGenMeta x"
      and "MakeSumOps env ir h n v = Inr (h', sum_ops, g)"
  shows "\<exists>base inp cnt.
      GetSumOpOutputName h (gradient_generators ir n v) n = Inr base
    \<and> gradient_generators ir n v \<noteq> []
    \<and> MakeDenseSumOps_loop base (h, [], 0) (gradient_generators ir n v) = Inr (h', inp, cnt)
    \<and> sum_ops = SetSumOpsDeviceOption h'
         [CreateOperator env ''Sum'' (map BlobReference inp) [BlobReference base] []]
         (gradient_generators ir n v)
    \<and> g = Dense base"
proof -
  let ?gens = "gradient_generators ir n v"
  from assms(2) obtain base where b: "GetSumOpOutputName h ?gens n = Inr base"
    by (auto simp: MakeSumOps_def Let_def split: sum.splits)
  from assms(2) b have ne: "?gens \<noteq> []"
    by (auto simp: MakeSumOps_def Let_def split: sum.splits if_splits)
  then have hd: "is_GradGenMeta (hd ?gens)" using assms(1) by (cases ?gens) auto
  from assms(2) b ne hd obtain res where
    m: "MakeDenseSumOps env h ?gens base = Inr res"
    and r: "h' = fst res" "sum_ops = SetSumOpsDeviceOption (fst res) (fst (snd res)) ?gens"
       "g = snd (snd res)"
    by (auto simp: MakeSumOps_def Let_def split: sum.splits if_splits)
  from m obtain st where
    l: "MakeDenseSumOps_loop base (h, [], 0) ?gens = Inr st"
    and res: "res = (fst st, [CreateOperator env ''Sum'' (map BlobReference (fst (snd st)))
                  [BlobReference base] []], Dense base)"
    by (auto simp: MakeDenseSumOps_def split: sum.splits)
  obtain h1 inp cnt where st: "st = (h1, inp, cnt)" by (cases st) auto
  from b ne l res r st show ?thesis by auto
qed

lemma MakeSumOps_dense_success:
  assumes dense: "\<forall>x \<in> set generators. is_GradGenMeta x"
      and gens: "generators = gradient_generators ir input_name input_version"
      and dist: "distinct (producers dense_producer generators)"
      and base: "out_base_name =
                   (case producers dense_producer generators of
                      [] \<Rightarrow> input_name @ ''_grad''
                    | p # ps \<Rightarrow> output_name h p)"
      and ok: "MakeSumOps env ir h input_name input_version = Inr (h', sum_ops, g)"
  shows "\<exists>sum_op. sum_ops = [sum_op]
       \<and> op_type sum_op = ''Sum''
       \<and> op_output sum_op = [out_base_name]
       \<and> g = Dense out_base_name
       \<and> length (op_input sum_op) = length generators
       \<and> (\<forall>k < length generators.
            case generators ! k of
              GradGenMeta (Some r) idx gr \<Rightarrow>
                op_input sum_op ! k =
                  ''_'' @ output_name h (r, idx) @ ''_autosplit_''
                    @ str_nat (producers_before dense_producer k generators)
                \<and> output_name h' (r, idx) = op_input sum_op ! k
            | GradGenMeta None idx (Dense s) \<Rightarrow>
                op_input sum_op ! k = s \<and> op_input sum_op ! k \<noteq> out_base_name
            | GradGenMeta None idx NoGrad \<Rightarrow>
                op_input sum_op ! k = ''None'' \<and> op_input sum_op ! k \<noteq> out_base_name
            | _ \<Rightarrow> False)"
proof -
  from MakeSumOps_dense_unfold [OF dense [unfolded gens] ok] obtain b inp cnt where
    b: "GetSumOpOutputName h generators input_name = Inr b"
    and l: "MakeDenseSumOps_loop b (h, [], 0) generators = Inr (h', inp, cnt)"
    and s: "sum_ops = SetSumOpsDeviceOption h'
         [CreateOperator env ''Sum'' (map BlobReference inp) [BlobReference b] []] generators"
    and g: "g = Dense b"
    unfolding gens by blast
  have bb: "b = out_base_name"
    using b base GetSumOpOutputName_dense [OF dense, of h input_name]
    by (auto split: list.splits dest: output_at_Inr)
  from dense_loop_spec [OF l dist] obtain new where
    new: "inp = new" "length new = length generators"
    and okk: "\<forall>k < length generators.
        dense_ok h h' b (producers_before dense_producer k generators) (generators ! k) (new ! k)"
    by auto
  let ?c = "CreateOperator env ''Sum'' (map BlobReference inp) [BlobReference b] []"
  from s obtain sum_op where one: "sum_ops = [sum_op]"
    and f: "op_type sum_op = op_type ?c" "op_input sum_op = op_input ?c"
           "op_output sum_op = op_output ?c"
    using SetSumOpsDeviceOption_fields [of h' "[?c]" generators]
    by (cases sum_ops) auto
  have f': "op_type sum_op = ''Sum''" "op_input sum_op = new" "op_output sum_op = [out_base_name]"
    using f new bb by (simp_all add: CreateOperator_def comp_def)
  have "\<forall>k < length generators.
            case generators ! k of
              GradGenMeta (Some r) idx gr \<Rightarrow>
                op_input sum_op ! k =
                  ''_'' @ output_name h (r, idx) @ ''_autosplit_''
                    @ str_nat (producers_before dense_producer k generators)
                \<and> output_name h' (r, idx) = op_input sum_op ! k
            | GradGenMeta None idx (Dense s) \<Rightarrow>
                op_input sum_op ! k = s \<and> op_input sum_op ! k \<noteq> out_base_name
            | GradGenMeta None idx NoGrad \<Rightarrow>
                op_input sum_op ! k = ''None'' \<and> op_input sum_op ! k \<noteq> out_base_name
            | _ \<Rightarrow> False"
  proof (intro allI impI)
    fix k assume "k < length generators"
    with okk have "dense_ok h h' b (producers_before dense_producer k generators)
                     (generators ! k) (new ! k)" by blast
    then show "case generators ! k of
              GradGenMeta (Some r) idx gr \<Rightarrow>
                op_input sum_op ! k =
                  ''_'' @ output_name h (r, idx) @ ''_autosplit_''
                    @ str_nat (producers_before dense_producer k generators)
                \<and> output_name h' (r, idx) = op_input sum_op ! k
            | GradGenMeta None idx (Dense s) \<Rightarrow>
                op_input sum_op ! k = s \<and> op_input sum_op ! k \<noteq> out_base_name
            | GradGenMeta None idx NoGrad \<Rightarrow>
                op_input sum_op ! k = ''None'' \<and> op_input sum_op ! k \<noteq> out_base_name
            | _ \<Rightarrow> False"
      unfolding dense_ok_def autosplit_def f' bb by simp
  qed
  with one f' g bb new show ?thesis by simp
qed

lemma contribution_Some_ok:
  "idx < length (op_output (h r)) \<Longrightarrow>
     \<exists>h1 inp1 cnt1. contribution base (h, inp, cnt) (Some r) idx s = Inr (h1, inp1, cnt1)"
  by (simp add: contribution_def DisambiguateGradOpOutput_def Let_def)

lemma contribution_None_eq:
  "contribution base (h, inp, cnt) None idx s =
     (if base = s then Inl (RuntimeError SumOpsConflict) else Inr (h, inp @ [s], cnt))"
  by (simp add: contribution_def CheckSumOpsConflict_def)

lemma dense_wf_length:
  "\<forall>q. length (op_output (h1 q)) = length (op_output (h q)) \<Longrightarrow> dense_wf h gen \<Longrightarrow> dense_wf h1 gen"
  by (auto simp: dense_wf_def split: GradGen.splits)

lemma dense_wf_is_dense: "dense_wf h x \<Longrightarrow> is_GradGenMeta x"
  by (cases x) (auto simp: dense_wf_def)

lemma dense_loop_conflict:
  "\<forall>gen \<in> set gens. dense_wf h gen \<Longrightarrow>
   GradGenMeta None i (Dense base) \<in> set gens \<Longrightarrow>
   MakeDenseSumOps_loop base (h, inp, cnt) gens = Inl (RuntimeError SumOpsConflict)"
proof (induction gens arbitrary: h inp cnt)
  case Nil
  then show ?case by simp
next
  case (Cons gen gens)
  from Cons.prems(1) have wf: "dense_wf h gen" and wfs: "\<forall>x \<in> set gens. dense_wf h x" by auto
  from wf obtain grad_op idx gr where gen: "gen = GradGenMeta grad_op idx gr"
    and ns: "\<forall>a b. gr \<noteq> GradientSlice a b"
    and rng: "\<forall>r. grad_op = Some r \<longrightarrow> idx < length (op_output (h r))"
    by (auto simp: dense_wf_def split: GradGen.splits)
  from ns obtain s where s: "(gr = NoGrad \<and> s = ''None'') \<or> gr = Dense s"
    by (cases gr) auto
  have step: "MakeDenseSumOps_loop base (h, inp, cnt) (gen # gens) =
        (case contribution base (h, inp, cnt) grad_op idx s of
           Inl e \<Rightarrow> Inl e
         | Inr st' \<Rightarrow> MakeDenseSumOps_loop base st' gens)"
    using s gen by auto
  show ?case
  proof (cases grad_op)
    case (Some r)
    with rng have "idx < length (op_output (h r))" by simp
    then have "\<exists>h1 inp1 cnt1. contribution base (h, inp, cnt) (Some r) idx s = Inr (h1, inp1, cnt1)"
      by (rule contribution_Some_ok)
    then obtain h1 inp1 cnt1 where
      c: "contribution base (h, inp, cnt) (Some r) idx s = Inr (h1, inp1, cnt1)" by blast
    from contribution_Some(7) [OF c] have len: "\<forall>q. length (op_output (h1 q)) = length (op_output (h q))"
      by simp
    with wfs have wf1: "\<forall>x \<in> set gens. dense_wf h1 x" by (blast intro: dense_wf_length)
    from Cons.prems(2) gen Some have "GradGenMeta None i (Dense base) \<in> set gens" by auto
    from Cons.IH [OF wf1 this] step c Some show ?thesis by simp
  next
    case None
    show ?thesis
    proof (cases "base = s")
      case True
      with step None show ?thesis by (simp add: contribution_None_eq)
    next
      case False
      with Cons.prems(2) gen None s have "GradGenMeta None i (Dense base) \<in> set gens" by auto
      from Cons.IH [OF wfs this] step None False show ?thesis
        by (simp add: contribution_None_eq)
    qed
  qed
qed

lemma MakeSumOps_dense_conflict:
  assumes dense: "\<forall>x \<in> set generators. dense_wf h x"
      and gens: "generators = gradient_generators ir input_name input_version"
      and base: "out_base_name =
                   (case producers dense_producer generators of
                      [] \<Rightarrow> input_name @ ''_grad''
                    | p # ps \<Rightarrow> output_name h p)"
      and cf: "GradGenMeta None i (Dense out_base_name) \<in> set generators"
  shows "MakeSumOps env ir h input_name input_version = Inl (RuntimeError SumOpsConflict)"
proof -
  have d: "\<forall>x \<in> set generators. is_GradGenMeta x"
    using dense by (blast intro: dense_wf_is_dense)
  have b: "GetSumOpOutputName h generators input_name = Inr out_base_name"
  proof (cases "producers dense_producer generators")
    case Nil
    with base GetSumOpOutputName_dense [OF d, of h input_name] show ?thesis by simp
  next
    case (Cons p ps)
    then have "p \<in> set (producers dense_producer generators)" by simp
    then obtain gen where g: "gen \<in> set generators" "dense_producer gen = Some p"
      by (auto simp: set_producers)
    with dense have "dense_wf h gen" by blast
    with g(2) have "snd p < length (op_output (h (fst p)))"
      by (cases gen rule: dense_producer.cases) (auto simp: dense_wf_def)
    then have "output_at h (fst p) (snd p) = Inr (output_name h p)"
      by (simp add: output_at_def list_get_def output_name_def)
    with Cons base GetSumOpOutputName_dense [OF d, of h input_name] show ?thesis by simp
  qed
  from cf have ne: "generators \<noteq> []" by auto
  with d have hd: "is_GradGenMeta (hd generators)" by (cases generators) auto
  have "MakeDenseSumOps env h generators out_base_name = Inl (RuntimeError SumOpsConflict)"
    using dense_loop_conflict [OF dense cf] by (simp add: MakeDenseSumOps_def)
  with b ne hd d show ?thesis
    unfolding MakeSumOps_def gens [symmetric] by (auto simp: Let_def)
qed

lemma MakeSumOps_sparse_unfold:
  assumes "\<forall>x \<in> set (gradient_generators ir n v). \<not> is_GradGenMeta x"
      and "MakeSumOps env ir h n v = Inr (h', sum_ops, g)"
  shows "\<exists>base il ci vl cv.
      GetSumOpOutputName h (gradient_generators ir n v) n = Inr base
    \<and> gradient_generators ir n v \<noteq> []
    \<and> MakeSparseSumOps_loop base (h, ([], 0), ([], 0)) (gradient_generators ir n v)
         = Inr (h', (il, ci), (vl, cv))
    \<and> sum_ops = SetSumOpsDeviceOption h'
         [CreateOperator env ''Concat'' (map BlobReference il)
            (map BlobReference [base @ ''_indices_concat'', base @ ''_indices_concat_split''])
            [(''axis'', IntArg 0)],
          CreateOperator env ''Concat'' (map BlobReference vl)
            (map BlobReference [base @ ''_values_concat'', base @ ''_values_concat_split''])
            [(''axis'', IntArg 0)]]
         (gradient_generators ir n v)
    \<and> g = GradientSlice (base @ ''_indices_concat'') (base @ ''_values_concat'')"
proof -
  let ?gens = "gradient_generators ir n v"
  from assms(2) obtain base where b: "GetSumOpOutputName h ?gens n = Inr base"
    by (auto simp: MakeSumOps_def Let_def split: sum.splits)
  from assms(2) b have ne: "?gens \<noteq> []"
    by (auto simp: MakeSumOps_def Let_def split: sum.splits if_splits)
  then have hd: "\<not> is_GradGenMeta (hd ?gens)" using assms(1) by (cases ?gens) auto
  from assms(2) b ne hd obtain res where
    m: "MakeSparseSumOps env h ?gens base = Inr res"
    and r: "h' = fst res" "sum_ops = SetSumOpsDeviceOption (fst res) (fst (snd res)) ?gens"
       "g = snd (snd res)"
    by (auto simp: MakeSumOps_def Let_def split: sum.splits if_splits)
  from m obtain st where
    l: "MakeSparseSumOps_loop base (h, ([], 0), ([], 0)) ?gens = Inr st"
    and res: "res = (fst st,
         [CreateOperator env ''Concat'' (map BlobReference (fst (fst (snd st))))
            (map BlobReference [base @ ''_indices_concat'', base @ ''_indices_concat_split''])
            [(''axis'', IntArg 0)],
          CreateOperator env ''Concat'' (map BlobReference (fst (snd (snd st))))
            (map BlobReference [base @ ''_values_concat'', base @ ''_values_concat_split''])
            [(''axis'', IntArg 0)]],
         GradientSlice (base @ ''_indices_concat'') (base @ ''_values_concat''))"
    by (auto simp: MakeSparseSumOps_def Let_def split: sum.splits)
  obtain h1 il ci vl cv where st: "st = (h1, (il, ci), (vl, cv))" by (cases st) auto
  from b ne l res r st show ?thesis by auto
qed


lemma remove_suffix_append: "suffix \<noteq> [] \<Longrightarrow> remove_suffix (b @ suffix) suffix = b"
  by (simp add: remove_suffix_def endswith_def)

lemma remove_suffix_other: "\<not> endswith s suffix \<Longrightarrow> remove_suffix s suffix = s"
  by (simp add: remove_suffix_def)

lemma GetSumOpOutputName_sparse_first:
  assumes "\<forall>x \<in> set pre. \<not> is_GradGenMeta x \<and> indices_producer x = None \<and> values_producer x = None"
  shows "GetSumOpOutputName h (pre @ SparseGradGenMeta op_i idx_i op_v idx_v gr # rest) n =
     (case op_i of
        Some r \<Rightarrow> (case output_at h r idx_i of Inl e \<Rightarrow> Inl e
                   | Inr s \<Rightarrow> Inr (remove_suffix s ''_indices''))
      | None \<Rightarrow>
         (case op_v of
            Some r \<Rightarrow> (case output_at h r idx_v of Inl e \<Rightarrow> Inl e
                       | Inr s \<Rightarrow> Inr (remove_suffix s ''_values''))
          | None \<Rightarrow> GetSumOpOutputName h rest n))"
  using assms
proof (induction pre)
  case Nil
  then show ?case by simp
next
  case (Cons x pre)
  then show ?case
    by (cases x rule: indices_producer.cases) (auto split: option.splits)
qed

lemma MakeSumOps_device:
  assumes ok: "MakeSumOps env ir h input_name input_version = Inr (h', sum_ops, g)"
      and gens: "generators = gradient_generators ir input_name input_version"
  shows "\<forall>x \<in> set sum_ops.
           device_option x =
             (case List.map_filter device_source generators of
                [] \<Rightarrow> CurrentDeviceScope env
              | r # rs \<Rightarrow>
                 (case device_option (h r) of
                    None \<Rightarrow> CurrentDeviceScope env
                  | Some d \<Rightarrow> Some d))"
proof -
  from ok obtain base res where
    m: "(if is_GradGenMeta (hd generators)
         then MakeDenseSumOps env h generators base
         else MakeSparseSumOps env h generators base) = Inr res"
    and r: "h' = fst res" "sum_ops = SetSumOpsDeviceOption (fst res) (fst (snd res)) generators"
    unfolding gens
    by (auto simp: MakeSumOps_def Let_def split: sum.splits if_splits)
  have dev: "\<forall>q. device_option (fst res q) = device_option (h q)"
    and cr: "\<forall>x \<in> set (fst (snd res)). device_option x = CurrentDeviceScope env"
  proof -
    show "\<forall>q. device_option (fst res q) = device_option (h q)"
    proof (cases "is_GradGenMeta (hd generators)")
      case True
      with m obtain st where l: "MakeDenseSumOps_loop base (h, [], 0) generators = Inr st"
        and "fst res = fst st"
        by (auto simp: MakeDenseSumOps_def split: sum.splits)
      then show ?thesis using dense_loop_frame [of base h "[]" 0 generators "fst st" "fst (snd st)" "snd (snd st)"]
        by auto
    next
      case False
      with m obtain st where l: "MakeSparseSumOps_loop base (h, ([], 0), ([], 0)) generators = Inr st"
        and "fst res = fst st"
        by (auto simp: MakeSparseSumOps_def Let_def split: sum.splits)
      then show ?thesis using sparse_loop_frame [of base h "[]" 0 "[]" 0 generators "fst st" "snd st"]
        by auto
    qed
    show "\<forall>x \<in> set (fst (snd res)). device_option x = CurrentDeviceScope env"
      using m
      by (auto simp: MakeDenseSumOps_def MakeSparseSumOps_def Let_def CreateOperator_def
          split: sum.splits if_splits)
  qed
  show ?thesis
    unfolding r SetSumOpsDeviceOption_first using dev cr
    by (auto split: list.splits option.splits)
qed

lemma str_nat_small: "str_nat 0 = ''0''" "str_nat (Suc 0) = ''1''" "str_nat 2 = ''2''"
  by (simp_all add: str_nat.simps [of 0] str_nat.simps [of "Suc 0"] str_nat.simps [of 2])

lemmas acc_defs = MakeSumOps_def MakeDenseSumOps_def MakeSparseSumOps_def contribution_def
  DisambiguateGradOpOutput_def CheckSumOpsConflict_def CreateOperator_def output_at_def
  list_get_def Let_def remove_suffix_def endswith_def str_nat_small

text \<open>
  C2. Let the generators of a versioned blob all be dense, with pairwise
  different producers (operator and output index), and let the base name be
  the output of the first generator that has a producing operator, or
  \<open><blob>_grad\<close> when none has. If \<open>_MakeSumOps\<close> returns, it returns exactly
  one operator, of type \<open>Sum\<close>, whose only output is the base name, which is
  also the gradient handed back; it has one input per generator, in the
  order of the generators: for a generator with a producing operator the
  name \<open>_<output>_autosplit_<c>\<close>, where \<open>c\<close> counts the producing generators
  before it, and the producing operator in the store now writes that name;
  for a generator without one its literal name, which differs from the base
  name. When a generator without producing operator carries the base name,
  \<open>_MakeSumOps\<close> raises the conflict error.
\<close>

theorem dense_accumulation:
  assumes gens: "generators = gradient_generators ir input_name input_version"
      and base: "out_base_name =
                   (case producers dense_producer generators of
                      [] \<Rightarrow> input_name @ ''_grad''
                    | p # ps \<Rightarrow> output_name h p)"
  shows "((\<forall>x \<in> set generators. is_GradGenMeta x) \<and>
          distinct (producers dense_producer generators) \<and>
          MakeSumOps env ir h input_name input_version = Inr (h', sum_ops, g) \<longrightarrow>
          (\<exists>sum_op. sum_ops = [sum_op]
             \<and> op_type sum_op = ''Sum''
             \<and> op_output sum_op = [out_base_name]
             \<and> g = Dense out_base_name
             \<and> length (op_input sum_op) = length generators
             \<and> (\<forall>k < length generators.
                  case generators ! k of
                    GradGenMeta (Some r) idx gr \<Rightarrow>
                      op_input sum_op ! k =
                        ''_'' @ output_name h (r, idx) @ ''_autosplit_''
                          @ str_nat (producers_before dense_producer k generators)
                      \<and> output_name h' (r, idx) = op_input sum_op ! k
                  | GradGenMeta None idx (Dense s) \<Rightarrow>
                      op_input sum_op ! k = s \<and> op_input sum_op ! k \<noteq> out_base_name
                  | GradGenMeta None idx NoGrad \<Rightarrow>
                      op_input sum_op ! k = ''None'' \<and> op_input sum_op ! k \<noteq> out_base_name
                  | _ \<Rightarrow> False)))
       \<and> ((\<forall>x \<in> set generators. dense_wf h x) \<and>
          GradGenMeta None i (Dense out_base_name) \<in> set generators \<longrightarrow>
          MakeSumOps env ir h input_name input_version = Inl (RuntimeError SumOpsConflict))"
proof (intro conjI impI)
  assume a: "(\<forall>x \<in> set generators. is_GradGenMeta x) \<and>
          distinct (producers dense_producer generators) \<and>
          MakeSumOps env ir h input_name input_version = Inr (h', sum_ops, g)"
  then have d: "\<forall>x \<in> set generators. is_GradGenMeta x"
    and di: "distinct (producers dense_producer generators)"
    and ok: "MakeSumOps env ir h input_name input_version = Inr (h', sum_ops, g)"
    by blast+
  from MakeSumOps_dense_success [OF d gens di base ok]
  show "\<exists>sum_op. sum_ops = [sum_op]
             \<and> op_type sum_op = ''Sum''
             \<and> op_output sum_op = [out_base_name]
             \<and> g = Dense out_base_name
             \<and> length (op_input sum_op) = length generators
             \<and> (\<forall>k < length generators.
                  case generators ! k of
                    GradGenMeta (Some r) idx gr \<Rightarrow>
                      op_input sum_op ! k =
                        ''_'' @ output_name h (r, idx) @ ''_autosplit_''
                          @ str_nat (producers_before dense_producer k generators)
                      \<and> output_name h' (r, idx) = op_input sum_op ! k
                  | GradGenMeta None idx (Dense s) \<Rightarrow>
                      op_input sum_op ! k = s \<and> op_input sum_op ! k \<noteq> out_base_name
                  | GradGenMeta None idx NoGrad \<Rightarrow>
                      op_input sum_op ! k = ''None'' \<and> op_input sum_op ! k \<noteq> out_base_name
                  | _ \<Rightarrow> False)" .
next
  assume "(\<forall>x \<in> set generators. dense_wf h x) \<and>
          GradGenMeta None i (Dense out_base_name) \<in> set generators"
  then have w: "\<forall>x \<in> set generators. dense_wf h x"
    and c: "GradGenMeta None i (Dense out_base_name) \<in> set generators" by blast+
  from MakeSumOps_dense_conflict [OF w gens base c]
  show "MakeSumOps env ir h input_name input_version = Inl (RuntimeError SumOpsConflict)" .
qed

lemma ledger_ir_generators: "gradient_generators (ledger_ir gs) ''X'' 0 = gs"
  by (simp add: ledger_ir_def)

lemmas eval_defs = acc_defs ledger_ir_def IR_empty_def default_env_def mk_op_def
  producers_def producers_before_def List.map_filter_simps output_name_def dense_wf_def

theorem dense_accumulation_witness:
  "(\<exists>h'. MakeSumOps default_env (ledger_ir dense_generators) dense_heap ''X'' 0 =
       Inr (h', [mk_op ''Sum'' [''_X_grad_autosplit_0'', ''_X_grad_autosplit_1'', ''dZ'']
                   [''X_grad'']], Dense ''X_grad'')
       \<and> output_name h' (0, 0) = ''_X_grad_autosplit_0''
       \<and> output_name h' (1, 0) = ''_X_grad_autosplit_1'')
   \<and> MakeSumOps default_env (ledger_ir conflict_generators) dense_heap ''X'' 0 =
       Inl (RuntimeError SumOpsConflict)"
proof -
  let ?S = "mk_op ''Sum'' [''_X_grad_autosplit_0'', ''_X_grad_autosplit_1'', ''dZ''] [''X_grad'']"
  have "\<exists>h'. MakeSumOps default_env (ledger_ir dense_generators) dense_heap ''X'' 0 =
          Inr (h', [?S], Dense ''X_grad'')"
    by (simp add: eval_defs dense_generators_def dense_heap_def)
  then obtain h' where ev: "MakeSumOps default_env (ledger_ir dense_generators) dense_heap ''X'' 0 =
          Inr (h', [?S], Dense ''X_grad'')" by blast
  have g: "dense_generators = gradient_generators (ledger_ir dense_generators) ''X'' 0"
    by (simp add: ledger_ir_generators)
  have b: "''X_grad'' = (case producers dense_producer dense_generators of
                      [] \<Rightarrow> ''X'' @ ''_grad''
                    | p # ps \<Rightarrow> output_name dense_heap p)"
    by (simp add: eval_defs dense_generators_def dense_heap_def)
  have d: "\<forall>x \<in> set dense_generators. is_GradGenMeta x"
    by (simp add: dense_generators_def)
  have di: "distinct (producers dense_producer dense_generators)"
    by (simp add: eval_defs dense_generators_def)
  from dense_accumulation [OF g b, where env = default_env and h' = h'
      and sum_ops = "[?S]" and g = "Dense ''X_grad''"] d di ev
  obtain sum_op where s: "[?S] = [sum_op]"
    and k: "\<forall>k < length dense_generators.
                  case dense_generators ! k of
                    GradGenMeta (Some r) idx gr \<Rightarrow>
                      op_input sum_op ! k =
                        ''_'' @ output_name dense_heap (r, idx) @ ''_autosplit_''
                          @ str_nat (producers_before dense_producer k dense_generators)
                      \<and> output_name h' (r, idx) = op_input sum_op ! k
                  | GradGenMeta None idx (Dense s) \<Rightarrow>
                      op_input sum_op ! k = s \<and> op_input sum_op ! k \<noteq> ''X_grad''
                  | GradGenMeta None idx NoGrad \<Rightarrow>
                      op_input sum_op ! k = ''None'' \<and> op_input sum_op ! k \<noteq> ''X_grad''
                  | _ \<Rightarrow> False"
    by blast
  from k [rule_format, of 0] s have o0: "output_name h' (0, 0) = ''_X_grad_autosplit_0''"
    by (auto simp add: dense_generators_def dense_heap_def eval_defs)
  from k [rule_format, of 1] s have o1: "output_name h' (1, 0) = ''_X_grad_autosplit_1''"
    by (auto simp add: dense_generators_def dense_heap_def eval_defs)
  have gc: "conflict_generators = gradient_generators (ledger_ir conflict_generators) ''X'' 0"
    by (simp add: ledger_ir_generators)
  have bc: "''X_grad'' = (case producers dense_producer conflict_generators of
                      [] \<Rightarrow> ''X'' @ ''_grad''
                    | p # ps \<Rightarrow> output_name dense_heap p)"
    by (simp add: eval_defs conflict_generators_def dense_heap_def)
  have wc: "\<forall>x \<in> set conflict_generators. dense_wf dense_heap x"
    by (simp add: eval_defs conflict_generators_def dense_heap_def)
  have cc: "GradGenMeta None 0 (Dense ''X_grad'') \<in> set conflict_generators"
    by (simp add: conflict_generators_def)
  from dense_accumulation [OF gc bc, where i = 0 and env = default_env] wc cc
  have "MakeSumOps default_env (ledger_ir conflict_generators) dense_heap ''X'' 0 =
       Inl (RuntimeError SumOpsConflict)" by blast
  with ev o0 o1 show ?thesis by blast
qed



text \<open>
  C10. When the first sparse generator with a producing operator has an
  indices producer, the base name is that operator's output with one
  trailing \<open>_indices\<close> removed; when it has only a values producer, it is
  that operator's output with one trailing \<open>_values\<close> removed. The two
  concatenations then write \<open><base>_indices_concat\<close> and
  \<open><base>_values_concat\<close>. Removing the suffix from \<open>b_indices\<close> or
  \<open>b_values\<close> gives \<open>b\<close>, and a name without the suffix is kept.
\<close>

theorem sparse_base_name_stripped:
  assumes gens: "gradient_generators ir input_name input_version =
                   pre @ SparseGradGenMeta op_i idx_i op_v idx_v gr # rest"
      and pre: "\<forall>x \<in> set pre. \<not> is_GradGenMeta x \<and> indices_producer x = None
                                \<and> values_producer x = None"
      and rest: "\<forall>x \<in> set rest. \<not> is_GradGenMeta x"
      and ok: "MakeSumOps env ir h input_name input_version = Inr (h', sum_ops, g)"
  shows "(op_i = Some r \<longrightarrow>
            map op_output sum_ops =
              [[remove_suffix (output_name h (r, idx_i)) ''_indices'' @ ''_indices_concat'',
                remove_suffix (output_name h (r, idx_i)) ''_indices'' @ ''_indices_concat_split''],
               [remove_suffix (output_name h (r, idx_i)) ''_indices'' @ ''_values_concat'',
                remove_suffix (output_name h (r, idx_i)) ''_indices'' @ ''_values_concat_split'']]
          \<and> g = GradientSlice
                  (remove_suffix (output_name h (r, idx_i)) ''_indices'' @ ''_indices_concat'')
                  (remove_suffix (output_name h (r, idx_i)) ''_indices'' @ ''_values_concat''))
       \<and> (op_i = None \<and> op_v = Some r \<longrightarrow>
            map op_output sum_ops =
              [[remove_suffix (output_name h (r, idx_v)) ''_values'' @ ''_indices_concat'',
                remove_suffix (output_name h (r, idx_v)) ''_values'' @ ''_indices_concat_split''],
               [remove_suffix (output_name h (r, idx_v)) ''_values'' @ ''_values_concat'',
                remove_suffix (output_name h (r, idx_v)) ''_values'' @ ''_values_concat_split'']]
          \<and> g = GradientSlice
                  (remove_suffix (output_name h (r, idx_v)) ''_values'' @ ''_indices_concat'')
                  (remove_suffix (output_name h (r, idx_v)) ''_values'' @ ''_values_concat''))
       \<and> remove_suffix (b @ ''_indices'') ''_indices'' = b
       \<and> remove_suffix (b @ ''_values'') ''_values'' = b
       \<and> (\<not> endswith s ''_indices'' \<longrightarrow> remove_suffix s ''_indices'' = s)
       \<and> (\<not> endswith s ''_values'' \<longrightarrow> remove_suffix s ''_values'' = s)"
proof -
  let ?gens = "gradient_generators ir input_name input_version"
  have sp: "\<forall>x \<in> set ?gens. \<not> is_GradGenMeta x"
    using pre rest unfolding gens by auto
  from MakeSumOps_sparse_unfold [OF sp ok] obtain base il ci vl cv where
    b: "GetSumOpOutputName h ?gens input_name = Inr base"
    and s: "sum_ops = SetSumOpsDeviceOption h'
         [CreateOperator env ''Concat'' (map BlobReference il)
            (map BlobReference [base @ ''_indices_concat'', base @ ''_indices_concat_split''])
            [(''axis'', IntArg 0)],
          CreateOperator env ''Concat'' (map BlobReference vl)
            (map BlobReference [base @ ''_values_concat'', base @ ''_values_concat_split''])
            [(''axis'', IntArg 0)]]
         ?gens"
    and g: "g = GradientSlice (base @ ''_indices_concat'') (base @ ''_values_concat'')"
    by blast
  have outs: "map op_output sum_ops =
      [[base @ ''_indices_concat'', base @ ''_indices_concat_split''],
       [base @ ''_values_concat'', base @ ''_values_concat_split'']]"
    unfolding s SetSumOpsDeviceOption_fields by (simp add: CreateOperator_def)
  note first = GetSumOpOutputName_sparse_first [OF pre, of h op_i idx_i op_v idx_v gr rest input_name]
  have i: "op_i = Some r \<Longrightarrow> base = remove_suffix (output_name h (r, idx_i)) ''_indices''"
    using b first unfolding gens
    by (auto split: sum.splits dest: output_at_Inr)
  have v: "op_i = None \<Longrightarrow> op_v = Some r \<Longrightarrow>
             base = remove_suffix (output_name h (r, idx_v)) ''_values''"
    using b first unfolding gens
    by (auto split: sum.splits dest: output_at_Inr)
  show ?thesis
    using i v outs g
    by (auto simp add: remove_suffix_append remove_suffix_other)
qed

theorem sparse_base_name_stripped_witness:
  "(\<exists>h'. MakeSumOps default_env (ledger_ir sparse_generators) sparse_heap ''X'' 0 =
     Inr (h',
          [(mk_op ''Concat'' [''_W_grad_indices_autosplit_0'', ''_W_grad_indices_autosplit_1'', ''I'']
              [''W_grad_indices_concat'', ''W_grad_indices_concat_split''])
             \<lparr>op_arg := [(''axis'', IntArg 0)]\<rparr>,
           (mk_op ''Concat'' [''_W_grad_values_autosplit_0'', ''_W_grad_values_autosplit_1'', ''V'']
              [''W_grad_values_concat'', ''W_grad_values_concat_split''])
             \<lparr>op_arg := [(''axis'', IntArg 0)]\<rparr>],
          GradientSlice ''W_grad_indices_concat'' ''W_grad_values_concat''))
   \<and> (\<exists>h'. MakeSumOps default_env (ledger_ir values_first_generators) sparse_heap ''X'' 0 =
     Inr (h',
          [(mk_op ''Concat'' [''I'', ''_W_grad_indices_autosplit_0'']
              [''W_grad_indices_concat'', ''W_grad_indices_concat_split''])
             \<lparr>op_arg := [(''axis'', IntArg 0)]\<rparr>,
           (mk_op ''Concat'' [''_W_grad_values_autosplit_0'', ''_W_grad_values_autosplit_1'']
              [''W_grad_values_concat'', ''W_grad_values_concat_split''])
             \<lparr>op_arg := [(''axis'', IntArg 0)]\<rparr>],
          GradientSlice ''W_grad_indices_concat'' ''W_grad_values_concat''))
   \<and> remove_suffix ''W_grad_indices'' ''_indices'' = ''W_grad''
   \<and> remove_suffix ''W_grad_values'' ''_values'' = ''W_grad''"
proof -
  let ?I = "(mk_op ''Concat'' [''_W_grad_indices_autosplit_0'', ''_W_grad_indices_autosplit_1'', ''I'']
              [''W_grad_indices_concat'', ''W_grad_indices_concat_split''])
             \<lparr>op_arg := [(''axis'', IntArg 0)]\<rparr>"
  let ?V = "(mk_op ''Concat'' [''_W_grad_values_autosplit_0'', ''_W_grad_values_autosplit_1'', ''V'']
              [''W_grad_values_concat'', ''W_grad_values_concat_split''])
             \<lparr>op_arg := [(''axis'', IntArg 0)]\<rparr>"
  let ?I2 = "(mk_op ''Concat'' [''I'', ''_W_grad_indices_autosplit_0'']
              [''W_grad_indices_concat'', ''W_grad_indices_concat_split''])
             \<lparr>op_arg := [(''axis'', IntArg 0)]\<rparr>"
  let ?V2 = "(mk_op ''Concat'' [''_W_grad_values_autosplit_0'', ''_W_grad_values_autosplit_1'']
              [''W_grad_values_concat'', ''W_grad_values_concat_split''])
             \<lparr>op_arg := [(''axis'', IntArg 0)]\<rparr>"
  let ?g = "GradientSlice ''W_grad_indices_concat'' ''W_grad_values_concat''"
  have "\<exists>h'. MakeSumOps default_env (ledger_ir sparse_generators) sparse_heap ''X'' 0 =
          Inr (h', [?I, ?V], ?g)"
    by (simp add: eval_defs sparse_generators_def sparse_heap_def)
  then obtain h1 where ev1: "MakeSumOps default_env (ledger_ir sparse_generators) sparse_heap ''X'' 0 =
          Inr (h1, [?I, ?V], ?g)" by blast
  have "\<exists>h'. MakeSumOps default_env (ledger_ir values_first_generators) sparse_heap ''X'' 0 =
          Inr (h', [?I2, ?V2], ?g)"
    by (simp add: eval_defs values_first_generators_def sparse_heap_def)
  then obtain h2 where ev2: "MakeSumOps default_env (ledger_ir values_first_generators) sparse_heap ''X'' 0 =
          Inr (h2, [?I2, ?V2], ?g)" by blast
  have g1: "gradient_generators (ledger_ir sparse_generators) ''X'' 0 =
      [] @ SparseGradGenMeta (Some 0) 0 (Some 0) 1 (GradientSlice ''W_grad_indices'' ''W_grad_values'')
         # [SparseGradGenMeta (Some 1) 0 (Some 1) 1 (GradientSlice ''W_grad_indices'' ''W_grad_values''),
            SparseGradGenMeta None 0 None 0 (GradientSlice ''I'' ''V'')]"
    by (simp add: ledger_ir_generators sparse_generators_def)
  have g2: "gradient_generators (ledger_ir values_first_generators) ''X'' 0 =
      [] @ SparseGradGenMeta None 0 (Some 0) 1 (GradientSlice ''I'' ''W_grad_values'')
         # [SparseGradGenMeta (Some 1) 0 (Some 1) 1 (GradientSlice ''W_grad_indices'' ''W_grad_values'')]"
    by (simp add: ledger_ir_generators values_first_generators_def)
  have p: "\<forall>x \<in> set []. \<not> is_GradGenMeta x \<and> indices_producer x = None
                                \<and> values_producer x = None"
    by simp
  have r1: "\<forall>x \<in> set [SparseGradGenMeta (Some 1) 0 (Some 1) 1
                            (GradientSlice ''W_grad_indices'' ''W_grad_values''),
                          SparseGradGenMeta None 0 None 0 (GradientSlice ''I'' ''V'')].
              \<not> is_GradGenMeta x"
    by simp
  have r2: "\<forall>x \<in> set [SparseGradGenMeta (Some 1) 0 (Some 1) 1
                            (GradientSlice ''W_grad_indices'' ''W_grad_values'')].
              \<not> is_GradGenMeta x"
    by simp
  note t1 = sparse_base_name_stripped [OF g1 p r1 ev1, where r = 0 and b = "''W_grad''"
      and s = "''W_grad''"]
  note t2 = sparse_base_name_stripped [OF g2 p r2 ev2, where r = 0 and b = "''W_grad''"
      and s = "''W_grad''"]
  from t1 have "remove_suffix (''W_grad'' @ ''_indices'') ''_indices'' = ''W_grad''"
    by (elim conjE)
  then have a: "remove_suffix ''W_grad_indices'' ''_indices'' = ''W_grad''" by simp
  from t2 have "remove_suffix (''W_grad'' @ ''_values'') ''_values'' = ''W_grad''"
    by (elim conjE)
  then have b: "remove_suffix ''W_grad_values'' ''_values'' = ''W_grad''" by simp
  from ev1 ev2 a b show ?thesis by blast
qed

text \<open>
  C9, as the code has it. The merge operators all get the device option of
  the first generator that has a producing operator at all (for a sparse
  generator its values operator, else its indices operator), when that
  operator has the field set; when no generator has a producing operator or
  that first operator has the field unset, they keep what \<open>CreateOperator\<close>
  gave them, the current device scope.
\<close>

theorem sum_ops_device_option:
  assumes ok: "MakeSumOps env ir h input_name input_version = Inr (h', sum_ops, g)"
      and gens: "generators = gradient_generators ir input_name input_version"
  shows "\<forall>x \<in> set sum_ops.
           device_option x =
             (case List.map_filter device_source generators of
                [] \<Rightarrow> CurrentDeviceScope env
              | r # rs \<Rightarrow>
                 (case device_option (h r) of
                    None \<Rightarrow> CurrentDeviceScope env
                  | Some d \<Rightarrow> Some d))"
  using ok gens by (rule MakeSumOps_device)

theorem sum_ops_device_option_witness:
  "\<exists>h'. MakeSumOps default_env (ledger_ir two_dense_generators) both_cuda_heap ''X'' 0 =
     Inr (h', [(mk_op ''Sum'' [''_X_grad_autosplit_0'', ''_X_grad_autosplit_1''] [''X_grad''])
                 \<lparr>device_option := Some (DeviceOption (Some 1) (Some 0) None)\<rparr>],
          Dense ''X_grad'')"
proof -
  let ?S = "(mk_op ''Sum'' [''_X_grad_autosplit_0'', ''_X_grad_autosplit_1''] [''X_grad''])
                 \<lparr>device_option := Some (DeviceOption (Some 1) (Some 0) None)\<rparr>"
  have "\<exists>h' d. MakeSumOps default_env (ledger_ir two_dense_generators) both_cuda_heap ''X'' 0 =
     Inr (h', [?S\<lparr>device_option := d\<rparr>], Dense ''X_grad'')"
    by (simp add: eval_defs two_dense_generators_def both_cuda_heap_def)
  then obtain h' d where ev: "MakeSumOps default_env (ledger_ir two_dense_generators) both_cuda_heap ''X'' 0 =
     Inr (h', [?S\<lparr>device_option := d\<rparr>], Dense ''X_grad'')" by blast
  have g: "two_dense_generators = gradient_generators (ledger_ir two_dense_generators) ''X'' 0"
    by (simp add: ledger_ir_generators)
  from sum_ops_device_option [OF ev g]
  have "d = Some (DeviceOption (Some 1) (Some 0) None)"
    by (simp add: two_dense_generators_def both_cuda_heap_def List.map_filter_simps mk_op_def)
  with ev show ?thesis by (auto simp: mk_op_def)
qed

text \<open>
  The claim as written fails when the first producing operator has no device
  option and a later one has. With the second operator's field set to the
  empty message the two compare equal, so the verification passes and the
  \<open>Sum\<close> is emitted without a device option, although a producing operator
  with the field set exists. \<open>_SetSumOpsDeviceOption\<close> taken alone leaves the
  operators unplaced even when the second producing operator is on a GPU.
\<close>

theorem sum_ops_device_option_counterexample:
  "VerifyGradientGenerators unset_then_set_heap two_dense_generators = Inr True
   \<and> device_option (unset_then_set_heap 0) = None
   \<and> device_option (unset_then_set_heap 1) = Some (DeviceOption None None None)
   \<and> map_sum id snd
       (MakeSumOps default_env (ledger_ir two_dense_generators) unset_then_set_heap ''X'' 0)
       = Inr ([mk_op ''Sum'' [''_X_grad_autosplit_0'', ''_X_grad_autosplit_1''] [''X_grad'']],
              Dense ''X_grad'')
   \<and> device_option (mk_op ''Sum'' [''_X_grad_autosplit_0'', ''_X_grad_autosplit_1''] [''X_grad''])
       = None
   \<and> device_option (cuda_heap 0) = None
   \<and> device_option (cuda_heap 1) = Some (DeviceOption (Some 1) (Some 0) None)
   \<and> SetSumOpsDeviceOption cuda_heap [mk_op ''Sum'' [''a'', ''b''] [''X_grad'']] two_dense_generators
       = [mk_op ''Sum'' [''a'', ''b''] [''X_grad'']]"
  by (simp add: eval_defs VerifyGradientGenerators_def device_option_of_def
      two_dense_generators_def unset_then_set_heap_def cuda_heap_def)

section \<open>Properties of the accumulation check\<close>


lemma Verify_mixed:
  "\<exists>x \<in> set gens. is_GradGenMeta x \<Longrightarrow> \<exists>x \<in> set gens. \<not> is_GradGenMeta x \<Longrightarrow>
     VerifyGradientGenerators h gens = Inl (RuntimeError MixedSparseDense)"
  by (simp add: VerifyGradientGenerators_def)





lemma step_mixed:
  assumes "in_versions entry n = Some v"
      and "1 < length (input_usages ir n v)"
      and "idx = hd (input_usages ir n v)"
      and "\<exists>x \<in> set (gradient_generators ir n v). is_GradGenMeta x"
      and "\<exists>x \<in> set (gradient_generators ir n v). \<not> is_GradGenMeta x"
  shows "DoGradientAccumulation_step env ir idx entry st n =
           Inl (RuntimeError (FailedToVerify n MixedSparseDense))"
  using assms
  by (simp add: DoGradientAccumulation_step_def dict_get_def Let_def Verify_mixed)

lemma loop_fails:
  "n \<in> set names \<Longrightarrow>
   (\<And>st. \<exists>e. DoGradientAccumulation_step env ir idx entry st n = Inl e) \<Longrightarrow>
   \<exists>e. DoGradientAccumulation_loop env ir idx entry st names = Inl e"
proof (induction names arbitrary: st)
  case Nil
  then show ?case by simp
next
  case (Cons x names)
  show ?case
  proof (cases "DoGradientAccumulation_step env ir idx entry st x")
    case (Inl e)
    then show ?thesis by simp
  next
    case (Inr st1)
    with Cons.prems(2) [of st] have "x \<noteq> n" by auto
    with Cons.prems(1) have "n \<in> set names" by simp
    from Cons.IH [OF this Cons.prems(2)] Inr show ?thesis by simp
  qed
qed

lemma loop_first_fails:
  "DoGradientAccumulation_step env ir idx entry st n = Inl e \<Longrightarrow>
   DoGradientAccumulation_loop env ir idx entry st (n # names) = Inl e"
  by simp


lemma Play_input_frontier_val:
  "fst (frontier_get (frontier (snd (Play_input k st s))) n) = fst (frontier_get (frontier (snd st)) n)"
  by (auto simp: Play_input_def Let_def frontier_get_def split: option.splits)

lemma Play_inputs_frontier_val:
  "fst (frontier_get (frontier (snd (foldl (Play_input k) st xs))) n) = fst (frontier_get (frontier (snd st)) n)"
  by (induction xs arbitrary: st) (simp_all add: Play_input_frontier_val)



lemma Play_ssa_length: "length (ssa (Play ir x)) = Suc (length (ssa ir))"
  by (simp add: Play_def Let_def Play_inputs_ssa)

lemma IR_init_ssa_length: "length (ssa (IR_init xs)) = length xs"
  by (induction xs rule: rev_induct) (simp_all add: IR_init_snoc Play_ssa_length, simp add: IR_init_def IR_empty_def)







text \<open>
  C4, as the code has it. Recording appends the generator whatever the list
  already holds; nothing is checked at that point. A list that holds both a
  dense and a sparse generator is rejected by \<open>_VerifyGradientGenerators\<close>
  with the mixed sparse/dense error. \<open>DoGradientAccumulation\<close> runs that check
  for an input name whose usage list has more than one entry and starts
  with the current operator, and raises the error again with the name of
  the blob: the call fails, so no accumulation operator is emitted; the
  error is that one when the name is the first one visited.
\<close>

theorem mixed_generators_fail_at_accumulation:
  assumes dense: "\<exists>x \<in> set (gradient_generators ir n v). is_GradGenMeta x"
      and sparse: "\<exists>x \<in> set (gradient_generators ir n v). \<not> is_GradGenMeta x"
      and idx: "fwd_op_idx < length (ssa ir)"
      and entry: "entry = ssa ir ! fwd_op_idx"
      and n: "n \<in> set (set_order env (op_input (ssa_op entry)))"
      and v: "in_versions entry n = Some v"
      and many: "1 < length (input_usages ir n v)"
      and first: "fwd_op_idx = hd (input_usages ir n v)"
  shows "gradient_generators (append_generator ir n v generator) n v
           = gradient_generators ir n v @ [generator]
       \<and> VerifyGradientGenerators h (gradient_generators ir n v)
           = Inl (RuntimeError MixedSparseDense)
       \<and> DoGradientAccumulation_step env ir fwd_op_idx entry st n
           = Inl (RuntimeError (FailedToVerify n MixedSparseDense))
       \<and> (\<exists>e. DoGradientAccumulation env ir h fwd_op_idx = Inl e)
       \<and> (hd (set_order env (op_input (ssa_op entry))) = n \<longrightarrow>
            DoGradientAccumulation env ir h fwd_op_idx
              = Inl (RuntimeError (FailedToVerify n MixedSparseDense)))"
proof -
  have a: "gradient_generators (append_generator ir n v generator) n v
           = gradient_generators ir n v @ [generator]"
    by (simp add: append_generator_def)
  have b: "VerifyGradientGenerators h (gradient_generators ir n v)
           = Inl (RuntimeError MixedSparseDense)"
    using dense sparse by (rule Verify_mixed)
  have c: "\<And>st. DoGradientAccumulation_step env ir fwd_op_idx entry st n
           = Inl (RuntimeError (FailedToVerify n MixedSparseDense))"
    using v many first dense sparse by (rule step_mixed)
  have d: "\<exists>e. DoGradientAccumulation env ir h fwd_op_idx = Inl e"
    using loop_fails [OF n, of env ir fwd_op_idx entry "(h, [], Map.empty)"] c idx entry
    by (simp add: DoGradientAccumulation_def ssa_at_def)
  have e: "hd (set_order env (op_input (ssa_op entry))) = n \<longrightarrow>
            DoGradientAccumulation env ir h fwd_op_idx
              = Inl (RuntimeError (FailedToVerify n MixedSparseDense))"
  proof
    assume hd: "hd (set_order env (op_input (ssa_op entry))) = n"
    from n obtain names where "set_order env (op_input (ssa_op entry)) = n # names"
      using hd by (cases "set_order env (op_input (ssa_op entry))") auto
    with c idx entry show "DoGradientAccumulation env ir h fwd_op_idx
              = Inl (RuntimeError (FailedToVerify n MixedSparseDense))"
      by (simp add: DoGradientAccumulation_def ssa_at_def)
  qed
  from a b c d e show ?thesis by (intro conjI)
qed

theorem mixed_generators_fail_at_accumulation_witness:
  "VerifyGradientGenerators dense_heap mixed_generators = Inl (RuntimeError MixedSparseDense)
   \<and> DoGradientAccumulation default_env (fanout_ir mixed_generators) dense_heap 0
       = Inl (RuntimeError (FailedToVerify ''X'' MixedSparseDense))"
proof -
  let ?ir = "fanout_ir mixed_generators"
  have g: "gradient_generators ?ir ''X'' 0 = mixed_generators"
    by (simp add: fanout_ir_def ledger_ir_generators)
  have dense: "\<exists>x \<in> set (gradient_generators ?ir ''X'' 0). is_GradGenMeta x"
    unfolding g by (simp add: mixed_generators_def)
  have sparse: "\<exists>x \<in> set (gradient_generators ?ir ''X'' 0). \<not> is_GradGenMeta x"
    unfolding g by (simp add: mixed_generators_def)
  have idx: "0 < length (ssa ?ir)"
    by (simp add: fanout_ir_def IR_init_ssa_length fanout_net_def)
  have n: "''X'' \<in> set (set_order default_env (op_input (ssa_op (ssa ?ir ! 0))))"
    and hd: "hd (set_order default_env (op_input (ssa_op (ssa ?ir ! 0)))) = ''X''"
    and v: "in_versions (ssa ?ir ! 0) ''X'' = Some 0"
    by (simp_all add: fanout_ir_def fanout_net_def play_defs example_defs)
  have u: "input_usages ?ir ''X'' 0 = [0, 1]"
    by (simp add: fanout_ir_def fanout_net_def play_defs mk_op_def)
  have many: "1 < length (input_usages ?ir ''X'' 0)" and first: "0 = hd (input_usages ?ir ''X'' 0)"
    unfolding u by simp_all
  note t = mixed_generators_fail_at_accumulation [OF dense sparse idx refl n v many first,
      where h = dense_heap]
  have a: "VerifyGradientGenerators dense_heap mixed_generators
                 = Inl (RuntimeError MixedSparseDense)"
    using t [THEN conjunct2, THEN conjunct1] unfolding g .
  have b: "DoGradientAccumulation default_env ?ir dense_heap 0
       = Inl (RuntimeError (FailedToVerify ''X'' MixedSparseDense))"
    using t [THEN conjunct2, THEN conjunct2, THEN conjunct2, THEN conjunct2, THEN mp, OF hd] .
  from a b show ?thesis by (rule conjI)
qed

text \<open>
  The claim as written fails at record time. In the reverse walk over
  \<open>A = F(X); B = Gather(X, I); Y = Add(A, B)\<close> the ledger of \<open>X\<close> holds
  the sparse generator of \<open>Gather\<close> when the gradient of \<open>F\<close> is generated;
  the dense generator is recorded next to it and the call returns. The
  failure comes afterwards, from the accumulation check of the same forward
  operator.
\<close>

theorem record_mixed_counterexample:
  "\<not> isl (GenerateGradientsForForwardOp no_native mixed_registry (bs_ir mixed_walk)
           (bs_store mixed_walk) 0 (all_input_to_grad mixed_walk))
   \<and> gradient_generators (bs_ir mixed_walk) ''X'' 0 =
       [SparseGradGenMeta (Some 0) 0 (Some 0) 1 (GradientSlice ''X_grad_indices'' ''X_grad_values'')]
   \<and> gradient_generators
        (fst (projr (GenerateGradientsForForwardOp no_native mixed_registry (bs_ir mixed_walk)
           (bs_store mixed_walk) 0 (all_input_to_grad mixed_walk)))) ''X'' 0 =
       [SparseGradGenMeta (Some 0) 0 (Some 0) 1 (GradientSlice ''X_grad_indices'' ''X_grad_values''),
        GradGenMeta (Some 1) 0 (Dense ''X_grad'')]
   \<and> GradientRegistry_GetBackwardPass default_env no_native mixed_registry mixed_net
        [(Name ''Y'', Dense ''dY'')]
      = Inl (RuntimeError (FailedToVerify ''X'' MixedSparseDense))"
  by (simp add: mixed_walk_def mixed_net_def mixed_registry_def grad_names_rule_def example_defs
      play_defs pass_defs str_nat_small numeral_3_eq_3)

section \<open>Properties of the start of the backward pass\<close>

text \<open>
  The state before the reverse walk: the gradient frontier of the targets,
  the references and the objects of the operators that were allocated, and
  the two results of \<open>_GetInitGradients\<close>.
\<close>

lemma set_gradient_frontier_spec:
  "gradient_frontier (set_gradient_frontier ir ys) y =
     (if y \<in> (\<lambda>p. str_of (fst p)) ` set ys then Some (frontier_of ir y)
      else gradient_frontier ir y)
   \<and> frontier_of (set_gradient_frontier ir ys) y = frontier_of ir y
   \<and> ssa (set_gradient_frontier ir ys) = ssa ir
   \<and> input_usages (set_gradient_frontier ir ys) = input_usages ir
   \<and> gradient_generators (set_gradient_frontier ir ys) = gradient_generators ir"
proof (induction ys arbitrary: ir)
  case Nil
  then show ?case by simp
next
  case (Cons p ys)
  let ?y = "str_of (fst p)"
  let ?ir1 = "ir\<lparr>frontier := snd (frontier_get (frontier ir) ?y),
                  gradient_frontier := (gradient_frontier ir)(?y \<mapsto> fst (frontier_get (frontier ir) ?y))\<rparr>"
  have f: "frontier_of ?ir1 y = frontier_of ir y" for y
    by (auto simp: frontier_of_def frontier_get_def split: option.splits)
  have s: "set_gradient_frontier ir (p # ys) = set_gradient_frontier ?ir1 ys"
    by (simp add: Let_def)
  show ?case
    unfolding s using Cons.IH [of ?ir1] f
    by (auto simp: frontier_of_def)
qed

lemma alloc_Cons:
  "alloc st (x # xs) =
     (fst (alloc \<lparr>objs = (objs st)(next_ref st := x), next_ref = Suc (next_ref st)\<rparr> xs),
      next_ref st # snd (alloc \<lparr>objs = (objs st)(next_ref st := x), next_ref = Suc (next_ref st)\<rparr> xs))"
  by (simp add: Let_def)

lemma alloc_refs: "snd (alloc st xs) = [next_ref st ..< next_ref st + length xs]"
proof (induction xs arbitrary: st)
  case Nil
  then show ?case by simp
next
  case (Cons x xs)
  show ?case
    by (simp add: alloc_Cons Cons.IH upt_conv_Cons del: alloc.simps(2) upt_Suc)
qed

lemma alloc_next: "next_ref (fst (alloc st xs)) = next_ref st + length xs"
  by (induction xs arbitrary: st) (simp_all add: alloc_Cons del: alloc.simps(2))

lemma alloc_objs:
  "objs (fst (alloc st xs)) r =
     (if next_ref st \<le> r \<and> r < next_ref st + length xs
      then xs ! (r - next_ref st) else objs st r)"
proof (induction xs arbitrary: st)
  case Nil
  then show ?case by auto
next
  case (Cons x xs)
  show ?case
    by (auto simp add: alloc_Cons Cons.IH nth_Cons' Suc_diff_le simp del: alloc.simps(2))
qed

lemma GetInitGradients_step_ops:
  "snd (GetInitGradients_step env st p) =
     snd st @ (if snd p = NoGrad
               then [\<lparr>op_type = ''ConstantFill'',
                      op_input = [RectifyInputOutput env (fst p)],
                      op_output = [CurrentNameScope env @ str_of (fst p) @ ''_autogen_grad''],
                      device_option = CurrentDeviceScope env,
                      op_arg = [(''value'', FloatArg 1)]\<rparr>]
               else [])"
  by (cases "snd p") (simp_all add: GetInitGradients_step_def CreateOperator_def Let_def ScopedName_def)

lemma GetInitGradients_step_map:
  "fst (GetInitGradients_step env st p) =
     (fst st)(str_of (fst p) \<mapsto>
        (if snd p = NoGrad
         then Dense (CurrentNameScope env @ str_of (fst p) @ ''_autogen_grad'')
         else snd p))"
  by (cases "snd p") (simp_all add: GetInitGradients_step_def CreateOperator_def Let_def ScopedName_def)

lemma GetInitGradients_fold_ops:
  "snd (foldl (GetInitGradients_step env) st ys) = snd st @ seed_ops env ys"
  by (induction ys arbitrary: st) (simp_all add: GetInitGradients_step_ops seed_ops_def)

lemma GetInitGradients_fold_map:
  "distinct (map (\<lambda>p. str_of (fst p)) ys) \<Longrightarrow>
   fst (foldl (GetInitGradients_step env) st ys) y =
     (case find (\<lambda>p. str_of (fst p) = y) ys of
        None \<Rightarrow> fst st y
      | Some p \<Rightarrow> Some (if snd p = NoGrad
                        then Dense (CurrentNameScope env @ y @ ''_autogen_grad'')
                        else snd p))"
proof (induction ys arbitrary: st)
  case Nil
  then show ?case by simp
next
  case (Cons p ys)
  from Cons.prems have d: "distinct (map (\<lambda>p. str_of (fst p)) ys)"
    and n: "str_of (fst p) \<notin> (\<lambda>p. str_of (fst p)) ` set ys" by auto
  have nf: "str_of (fst p) = y \<Longrightarrow> find (\<lambda>p. str_of (fst p) = y) ys = None"
    using n by (auto simp: find_None_iff image_iff)
  show ?case
  proof (cases "str_of (fst p) = y")
    case True
    with Cons.IH [OF d, of "GetInitGradients_step env st p" ] nf show ?thesis
      by (simp add: GetInitGradients_step_map)
  next
    case False
    with Cons.IH [OF d, of "GetInitGradients_step env st p"] show ?thesis
      by (simp add: GetInitGradients_step_map split: option.splits)
  qed
qed

lemma find_distinct_key:
  "distinct (map f ys) \<Longrightarrow> p \<in> set ys \<Longrightarrow> find (\<lambda>q. f q = f p) ys = Some p"
  by (induction ys) (auto simp: rev_image_eqI)

lemma backward_start_ops:
  "all_gradient_ops (backward_start env ir ys) = [0 ..< length (seed_ops env ys)]"
  "next_ref (bs_store (backward_start env ir ys)) = length (seed_ops env ys)"
  "q < length (seed_ops env ys) \<Longrightarrow>
     objs (bs_store (backward_start env ir ys)) q = seed_ops env ys ! q"
  "gradient_generators (bs_ir (backward_start env ir ys)) = gradient_generators ir"
  by (simp_all add: backward_start_def Let_def alloc_refs alloc_next alloc_objs
      GetInitGradients_def GetInitGradients_fold_ops set_gradient_frontier_spec)

text \<open>
  Accumulation changes a gradient operator only through a generator of the
  ledger: an object that no generator refers to is left as it is.
\<close>

lemma gens_above_simps [simp]:
  "gens_above k []"
  "gens_above k (gen # gens) = ((\<forall>r \<in> gen_refs gen. k \<le> r) \<and> gens_above k gens)"
  "gens_above k (xs @ ys) = (gens_above k xs \<and> gens_above k ys)"
  by (auto simp: gens_above_def)

lemma contribution_frame:
  "contribution base (h, inp, cnt) opr idx g = Inr (h1, inp1, cnt1) \<Longrightarrow>
   q \<notin> set_option opr \<Longrightarrow> h1 q = h q"
  by (cases opr)
     (auto simp: contribution_def DisambiguateGradOpOutput_def CheckSumOpsConflict_def Let_def
        split: if_splits)

lemma dense_loop_obj_frame:
  "MakeDenseSumOps_loop base (h, inp, cnt) gens = Inr (h', inp', cnt') \<Longrightarrow>
   \<forall>gen \<in> set gens. q \<notin> gen_refs gen \<Longrightarrow> h' q = h q"
proof (induction gens arbitrary: h inp cnt)
  case Nil
  then show ?case by simp
next
  case (Cons gen gens)
  show ?case
  proof (cases gen)
    case (SparseGradGenMeta a b c d e)
    with Cons.prems show ?thesis by simp
  next
    case (GradGenMeta grad_op idx g)
    from Cons.prems(1) GradGenMeta obtain s st1 where
      c: "contribution base (h, inp, cnt) grad_op idx s = Inr st1"
      and l: "MakeDenseSumOps_loop base st1 gens = Inr (h', inp', cnt')"
      by (auto split: Gradient.splits sum.splits)
    obtain h1 inp1 cnt1 where st1: "st1 = (h1, inp1, cnt1)" by (cases st1) auto
    from Cons.prems(2) GradGenMeta have "q \<notin> set_option grad_op" by simp
    from contribution_frame [OF c [unfolded st1] this] have "h1 q = h q" .
    with Cons.IH [OF l [unfolded st1]] Cons.prems(2) show ?thesis by simp
  qed
qed

lemma sparse_loop_obj_frame:
  "MakeSparseSumOps_loop base (h, (il, ci), (vl, cv)) gens = Inr (h', res) \<Longrightarrow>
   \<forall>gen \<in> set gens. q \<notin> gen_refs gen \<Longrightarrow> h' q = h q"
proof (induction gens arbitrary: h il ci vl cv)
  case Nil
  then show ?case by simp
next
  case (Cons gen gens)
  show ?case
  proof (cases gen)
    case (GradGenMeta a b c)
    with Cons.prems show ?thesis by simp
  next
    case (SparseGradGenMeta op_i idx_i op_v idx_v g)
    from sparse_unfold [OF Cons.prems(1) [unfolded SparseGradGenMeta]]
    obtain gi gv h1 il1 ci1 h2 vl1 cv1 where
      c1: "contribution base (h, il, ci) op_i idx_i gi = Inr (h1, il1, ci1)"
      and c2: "contribution base (h1, vl, cv) op_v idx_v gv = Inr (h2, vl1, cv1)"
      and l: "MakeSparseSumOps_loop base (h2, (il1, ci1), (vl1, cv1)) gens = Inr (h', res)"
      by blast
    from Cons.prems(2) SparseGradGenMeta have n: "q \<notin> set_option op_i" "q \<notin> set_option op_v"
      by simp_all
    from contribution_frame [OF c1 n(1)] contribution_frame [OF c2 n(2)] have "h2 q = h q" by simp
    with Cons.IH [OF l] Cons.prems(2) show ?thesis by simp
  qed
qed

lemma MakeSumOps_obj_frame:
  assumes "MakeSumOps env ir h n v = Inr (h', ops, g)"
      and "\<forall>gen \<in> set (gradient_generators ir n v). q \<notin> gen_refs gen"
  shows "h' q = h q"
proof -
  let ?gens = "gradient_generators ir n v"
  from assms(1) obtain base res where
    m: "(if is_GradGenMeta (hd ?gens)
         then MakeDenseSumOps env h ?gens base
         else MakeSparseSumOps env h ?gens base) = Inr res"
    and r: "h' = fst res"
    by (auto simp: MakeSumOps_def Let_def split: sum.splits if_splits)
  show ?thesis
  proof (cases "is_GradGenMeta (hd ?gens)")
    case True
    with m obtain st where l: "MakeDenseSumOps_loop base (h, [], 0) ?gens = Inr st"
      and "fst res = fst st"
      by (auto simp: MakeDenseSumOps_def split: sum.splits)
    then show ?thesis
      using dense_loop_obj_frame [of base h "[]" 0 ?gens "fst st" "fst (snd st)" "snd (snd st)" q]
        assms(2) r by auto
  next
    case False
    with m obtain st where l: "MakeSparseSumOps_loop base (h, ([], 0), ([], 0)) ?gens = Inr st"
      and "fst res = fst st"
      by (auto simp: MakeSparseSumOps_def Let_def split: sum.splits)
    then show ?thesis
      using sparse_loop_obj_frame [of base h "[]" 0 "[]" 0 ?gens "fst st" "snd st" q]
        assms(2) r by auto
  qed
qed

lemma step_obj_frame:
  assumes "DoGradientAccumulation_step env ir idx entry st n = Inr st'"
      and "ledger_above k ir" and "q < k"
  shows "fst st' q = fst st q"
proof -
  have nq: "\<forall>gen \<in> set (gradient_generators ir n v). q \<notin> gen_refs gen" for v
    using assms(2,3) by (fastforce simp: ledger_above_def gens_above_def)
  from assms(1) show ?thesis
    by (auto simp: DoGradientAccumulation_step_def dict_get_def Let_def
        split: option.splits if_splits sum.splits error.splits bool.splits
        dest: MakeSumOps_obj_frame [OF _ nq])
qed

lemma loop_obj_frame:
  "DoGradientAccumulation_loop env ir idx entry st names = Inr st' \<Longrightarrow>
   ledger_above k ir \<Longrightarrow> q < k \<Longrightarrow> fst st' q = fst st q"
proof (induction names arbitrary: st)
  case Nil
  then show ?case by simp
next
  case (Cons x names)
  from Cons.prems(1) obtain st1 where
    s: "DoGradientAccumulation_step env ir idx entry st x = Inr st1"
    and l: "DoGradientAccumulation_loop env ir idx entry st1 names = Inr st'"
    by (auto split: sum.splits)
  from Cons.IH [OF l Cons.prems(2,3)] step_obj_frame [OF s Cons.prems(2,3)]
  show ?case by simp
qed

lemma DoGradientAccumulation_obj_frame:
  assumes "DoGradientAccumulation env ir h idx = Inr (h', ops, gm)"
      and "ledger_above k ir" and "q < k"
  shows "h' q = h q"
  using assms loop_obj_frame [of env ir idx _ "(h, [], Map.empty)" _ "(h', ops, gm)" k q]
  by (auto simp: DoGradientAccumulation_def split: sum.splits)

text \<open>
  \<open>BuildGradientGenerators\<close> records only the operators it is given: a ledger
  with no reference below \<open>k\<close> stays so when these are not below \<open>k\<close>.
\<close>

lemma append_generator_above:
  "ledger_above k ir \<Longrightarrow> \<forall>r \<in> gen_refs gen. k \<le> r \<Longrightarrow>
     ledger_above k (append_generator ir n v gen)"
  by (auto simp: ledger_above_def append_generator_def)

lemma sparse_append_above:
  "table_above k tbl \<Longrightarrow> \<forall>r \<in> gen_refs m. k \<le> r \<Longrightarrow> table_above k (sparse_append tbl key m)"
  by (induction tbl) (auto simp: table_above_def)

lemma Check_generators:
  "CheckGradientOperatorInput ir s g_output idx local = Inr ir' \<Longrightarrow>
     gradient_generators ir' = gradient_generators ir \<and> ssa ir' = ssa ir
     \<and> input_usages ir' = input_usages ir"
  by (auto simp: CheckGradientOperatorInput_def Let_def dict_get_def list_get_def
      split: sum.splits option.splits if_splits)

lemma check_inputs_generators:
  "check_inputs ir g_output idx local xs = Inr ir' \<Longrightarrow>
     gradient_generators ir' = gradient_generators ir \<and> ssa ir' = ssa ir
     \<and> input_usages ir' = input_usages ir"
proof (induction xs arbitrary: ir)
  case Nil
  then show ?case by simp
next
  case (Cons x xs)
  from Cons.prems obtain ir1 where
    c: "CheckGradientOperatorInput ir x g_output idx local = Inr ir1"
    and l: "check_inputs ir1 g_output idx local xs = Inr ir'"
    by (auto split: sum.splits)
  from Cons.IH [OF l] Check_generators [OF c] show ?case by simp
qed

lemma append_generator_fields:
  "ssa (append_generator ir n v gen) = ssa ir"
  "input_usages (append_generator ir n v gen) = input_usages ir"
  by (simp_all add: append_generator_def)

lemma record_output_above:
  assumes "record_output entry g_input grad_op i st output = Inr st'"
      and "ledger_above k (fst st)" and "table_above k (snd st)" and "k \<le> grad_op"
  shows "ledger_above k (fst st') \<and> table_above k (snd st')
       \<and> ssa (fst st') = ssa (fst st) \<and> input_usages (fst st') = input_usages (fst st)"
  using assms
  by (auto simp: record_output_def append_generator_fields
      split: option.splits sum.splits Gradient.splits if_splits
      intro!: append_generator_above sparse_append_above)

lemma record_outputs_above:
  "record_outputs entry g_input grad_op i st outs = Inr st' \<Longrightarrow>
   ledger_above k (fst st) \<Longrightarrow> table_above k (snd st) \<Longrightarrow> k \<le> grad_op \<Longrightarrow>
     ledger_above k (fst st') \<and> table_above k (snd st')
     \<and> ssa (fst st') = ssa (fst st) \<and> input_usages (fst st') = input_usages (fst st)"
proof (induction outs arbitrary: i st)
  case Nil
  then show ?case by simp
next
  case (Cons x outs)
  from Cons.prems(1) obtain st1 where
    r: "record_output entry g_input grad_op i st x = Inr st1"
    and l: "record_outputs entry g_input grad_op (Suc i) st1 outs = Inr st'"
    by (auto split: sum.splits)
  from record_output_above [OF r Cons.prems(2,3,4)]
  have a: "ledger_above k (fst st1)" "table_above k (snd st1)"
    "ssa (fst st1) = ssa (fst st)" "input_usages (fst st1) = input_usages (fst st)" by auto
  from Cons.IH [OF l a(1,2) Cons.prems(4)] a(3,4) show ?case by simp
qed

lemma build_from_ops_Cons:
  "build_from_ops h idx entry g_output g_input st (x # ops) = Inr st' \<Longrightarrow>
   \<exists>ir1 st2.
     check_inputs (fst st) g_output idx (fst (snd st)) (op_input (h x)) = Inr ir1
     \<and> record_outputs entry g_input x 0 (ir1, snd (snd st)) (op_output (h x)) = Inr st2
     \<and> build_from_ops h idx entry g_output g_input
              (fst st2, fst (snd st) @ op_output (h x), snd st2) ops = Inr st'"
  by (auto split: sum.splits)

lemma build_from_ops_above:
  "build_from_ops h idx entry g_output g_input st ops = Inr st' \<Longrightarrow>
   ledger_above k (fst st) \<Longrightarrow> table_above k (snd (snd st)) \<Longrightarrow> \<forall>r \<in> set ops. k \<le> r \<Longrightarrow>
     ledger_above k (fst st') \<and> table_above k (snd (snd st'))
     \<and> ssa (fst st') = ssa (fst st) \<and> input_usages (fst st') = input_usages (fst st)"
proof (induction ops arbitrary: st)
  case Nil
  then show ?case by simp
next
  case (Cons x ops)
  from build_from_ops_Cons [OF Cons.prems(1)] obtain ir1 st2 where
    c: "check_inputs (fst st) g_output idx (fst (snd st)) (op_input (h x)) = Inr ir1"
    and r: "record_outputs entry g_input x 0 (ir1, snd (snd st)) (op_output (h x)) = Inr st2"
    and l: "build_from_ops h idx entry g_output g_input
              (fst st2, fst (snd st) @ op_output (h x), snd st2) ops = Inr st'"
    apply -
    apply (erule exE)+
    apply (elim conjE)
    apply (rule that)
      apply assumption+
    done
  note cg = check_inputs_generators [OF c]
  from cg Cons.prems(2) have a1: "ledger_above k ir1" by (simp add: ledger_above_def)
  from Cons.prems(4) have kx: "k \<le> x" and ko: "\<forall>r \<in> set ops. k \<le> r" by simp_all
  have "ledger_above k (fst (ir1, snd (snd st)))" "table_above k (snd (ir1, snd (snd st)))"
    using a1 Cons.prems(3) by simp_all
  from record_outputs_above [OF r this kx]
  have a2: "ledger_above k (fst st2)" "table_above k (snd st2)"
    "ssa (fst st2) = ssa ir1" "input_usages (fst st2) = input_usages ir1" by simp_all
  have "ledger_above k (fst (fst st2, fst (snd st) @ op_output (h x), snd st2))"
    "table_above k (snd (snd (fst st2, fst (snd st) @ op_output (h x), snd st2)))"
    using a2 by simp_all
  from Cons.IH [OF l this ko] a2 cg show ?case by simp
qed

lemma merge_sparse_above:
  "merge_sparse gens = Inr gen \<Longrightarrow> gens_above k gens \<Longrightarrow> \<forall>r \<in> gen_refs gen. k \<le> r"
  by (cases gens rule: merge_sparse.cases) (auto split: if_splits option.splits)

lemma AppendSparseGenerators_above:
  "AppendSparseGenerators ir tbl = Inr ir' \<Longrightarrow> ledger_above k ir \<Longrightarrow> table_above k tbl \<Longrightarrow>
     ledger_above k ir' \<and> ssa ir' = ssa ir \<and> input_usages ir' = input_usages ir"
proof (induction tbl arbitrary: ir)
  case Nil
  then show ?case by simp
next
  case (Cons entry tbl)
  from Cons.prems(1) obtain gen where
    m: "merge_sparse (snd entry) = Inr gen"
    and l: "AppendSparseGenerators (append_generator ir (fst (fst entry)) (snd (fst entry)) gen) tbl
              = Inr ir'"
    by (auto split: sum.splits)
  from Cons.prems(3) have t: "gens_above k (snd entry)" "table_above k tbl"
    by (auto simp: table_above_def)
  from merge_sparse_above [OF m t(1)] Cons.prems(2)
  have "ledger_above k (append_generator ir (fst (fst entry)) (snd (fst entry)) gen)"
    by (blast intro: append_generator_above)
  from Cons.IH [OF l this t(2)] show ?case by (simp add: append_generator_fields)
qed

lemma passthrough_choice_above:
  "ledger_above k ir \<Longrightarrow>
   ir1 = (case g of
            NoGrad \<Rightarrow> ir
          | Dense s \<Rightarrow>
              if s = [] then ir
              else if s \<notin> set local
              then append_generator ir n v (GradGenMeta None 0 g)
              else ir
          | GradientSlice indices values \<Rightarrow>
              if indices \<notin> set local \<and> values \<notin> set local
              then append_generator ir n v (SparseGradGenMeta None 0 None 0 g)
              else ir) \<Longrightarrow>
   ledger_above k ir1 \<and> ssa ir1 = ssa ir \<and> input_usages ir1 = input_usages ir"
  by (cases g) (auto intro!: append_generator_above simp: append_generator_fields)

lemma passthrough_generators_above:
  "passthrough_generators entry local i ir gs = Inr ir' \<Longrightarrow> ledger_above k ir \<Longrightarrow>
     ledger_above k ir' \<and> ssa ir' = ssa ir \<and> input_usages ir' = input_usages ir"
proof (induction gs arbitrary: i ir)
  case Nil
  then show ?case by simp
next
  case (Cons g gs)
  from Cons.prems(1) obtain n v where
    l: "passthrough_generators entry local (Suc i)
          (case g of
            NoGrad \<Rightarrow> ir
          | Dense s \<Rightarrow>
              if s = [] then ir
              else if s \<notin> set local
              then append_generator ir n v (GradGenMeta None 0 g)
              else ir
          | GradientSlice indices values \<Rightarrow>
              if indices \<notin> set local \<and> values \<notin> set local
              then append_generator ir n v (SparseGradGenMeta None 0 None 0 g)
              else ir) gs = Inr ir'"
    by (simp split: sum.splits)
  from passthrough_choice_above [OF Cons.prems(2) refl] Cons.IH [OF l]
  show ?case by simp
qed

lemma update_gradient_frontier_generators:
  "update_gradient_frontier entry i ir gs = Inr ir' \<Longrightarrow>
     gradient_generators ir' = gradient_generators ir \<and> ssa ir' = ssa ir
     \<and> input_usages ir' = input_usages ir"
proof (induction gs arbitrary: i ir)
  case Nil
  then show ?case by simp
next
  case (Cons g gs)
  show ?case
  proof (cases "g = NoGrad")
    case True
    with Cons.prems Cons.IH show ?thesis by simp
  next
    case False
    with Cons.prems obtain n v where
      "update_gradient_frontier entry (Suc i)
         (ir\<lparr>gradient_frontier := (gradient_frontier ir)(n \<mapsto> v)\<rparr>) gs = Inr ir'"
      by (auto split: sum.splits)
    from Cons.IH [OF this] show ?thesis by simp
  qed
qed

lemma BuildGradientGenerators_above:
  assumes "BuildGradientGenerators ir h idx ops g_output g_input = Inr ir'"
      and "ledger_above k ir" and "\<forall>r \<in> set ops. k \<le> r"
  shows "ledger_above k ir' \<and> ssa ir' = ssa ir \<and> input_usages ir' = input_usages ir"
proof -
  from assms(1) obtain entry st ir3 ir4 where
    b: "build_from_ops h idx entry g_output g_input (ir, [], []) ops = Inr st"
    and a: "AppendSparseGenerators (fst st) (snd (snd st)) = Inr ir3"
    and p: "passthrough_generators entry (fst (snd st)) 0 ir3 g_input = Inr ir4"
    and u: "update_gradient_frontier entry 0 ir4 g_input = Inr ir'"
    by (auto simp: BuildGradientGenerators_def split: sum.splits)
  have t0: "table_above k []" by (simp add: table_above_def)
  from build_from_ops_above [OF b] assms(2,3) t0
  have 1: "ledger_above k (fst st)" "table_above k (snd (snd st))"
    "ssa (fst st) = ssa ir" "input_usages (fst st) = input_usages ir" by auto
  from AppendSparseGenerators_above [OF a 1(1,2)]
  have 2: "ledger_above k ir3" "ssa ir3 = ssa (fst st)" "input_usages ir3 = input_usages (fst st)"
    by auto
  from passthrough_generators_above [OF p 2(1)]
  have 3: "ledger_above k ir4" "ssa ir4 = ssa ir3" "input_usages ir4 = input_usages ir3" by auto
  from update_gradient_frontier_generators [OF u] 1 2 3 show ?thesis
    by (simp add: ledger_above_def)
qed

text \<open>
  The reverse walk only appends to the operator list and allocates new
  objects; the ledger of a fresh \<open>IR\<close> is empty, so the operators created
  before the walk are never renamed.
\<close>

lemma Play_input_generators:
  "gradient_generators (snd (Play_input k st s)) = gradient_generators (snd st)"
  by (simp add: Play_input_def Let_def)

lemma Play_inputs_generators:
  "gradient_generators (snd (foldl (Play_input k) st xs)) = gradient_generators (snd st)"
  by (induction xs arbitrary: st) (simp_all add: Play_input_generators)

lemma Play_generators: "gradient_generators (Play ir x) = gradient_generators ir"
  by (simp add: Play_def Let_def Play_inputs_generators)

lemma IR_init_generators: "gradient_generators (IR_init xs) = (\<lambda>n v. [])"
proof (induction xs rule: rev_induct)
  case Nil
  then show ?case by (simp add: IR_init_def IR_empty_def)
next
  case (snoc x xs)
  then show ?case by (simp add: IR_init_snoc Play_generators)
qed

lemma Generate_above:
  assumes g: "GenerateGradientsForForwardOp cc reg ir store idx m = Inr (ir', store', m', refs)"
      and l: "ledger_above k ir" and n: "k \<le> next_ref store"
  shows "ledger_above k ir' \<and> k \<le> next_ref store'
       \<and> (\<forall>q. q < k \<longrightarrow> objs store' q = objs store q)"
proof -
  from g obtain entry where e: "ssa_at ir idx = Inr entry"
    by (auto simp: GenerateGradientsForForwardOp_def split: sum.splits)
  let ?g_output = "map (grad_get m) (op_output (ssa_op entry))"
  show ?thesis
  proof (cases "list_all (\<lambda>g. g = NoGrad) ?g_output")
    case True
    with g e have "ir' = ir" "store' = store"
      by (simp_all add: GenerateGradientsForForwardOp_def Let_def)
    with l n show ?thesis by simp
  next
    case False
    with g e obtain res where
      b: "BuildGradientGenerators ir (objs (fst (alloc store (fst res)))) idx
            (snd (alloc store (fst res))) ?g_output (snd res) = Inr ir'"
      and s: "store' = fst (alloc store (fst res))"
      by (auto simp: GenerateGradientsForForwardOp_def Let_def split: sum.splits)
    have r: "\<forall>r \<in> set (snd (alloc store (fst res))). k \<le> r"
      using n by (simp add: alloc_refs)
    from BuildGradientGenerators_above [OF b l r] have "ledger_above k ir'" by simp
    moreover have "k \<le> next_ref store'" using n by (simp add: s alloc_next)
    moreover have "\<forall>q. q < k \<longrightarrow> objs store' q = objs store q"
      using n by (simp add: s alloc_objs)
    ultimately show ?thesis by simp
  qed
qed

lemma backward_step_above:
  assumes b: "backward_step env cc reg idx st = Inr st'"
      and l: "ledger_above k (bs_ir st)" and n: "k \<le> next_ref (bs_store st)"
  shows "ledger_above k (bs_ir st') \<and> k \<le> next_ref (bs_store st')
       \<and> (\<forall>q. q < k \<longrightarrow> objs (bs_store st') q = objs (bs_store st) q)
       \<and> (\<exists>more. all_gradient_ops st' = all_gradient_ops st @ more)"
proof -
  from b obtain ir1 store1 m1 refs h2 sum_ops gm where
    g: "GenerateGradientsForForwardOp cc reg (bs_ir st) (bs_store st) idx (all_input_to_grad st)
          = Inr (ir1, store1, m1, refs)"
    and d: "DoGradientAccumulation env ir1 (objs store1) idx = Inr (h2, sum_ops, gm)"
    and s: "st' = \<lparr>bs_ir = ir1, bs_store = fst (alloc (store1\<lparr>objs := h2\<rparr>) sum_ops),
                   all_input_to_grad = (all_input_to_grad st ++ m1) ++ gm,
                   all_gradient_ops = (all_gradient_ops st @ refs)
                      @ snd (alloc (store1\<lparr>objs := h2\<rparr>) sum_ops)\<rparr>"
    by (auto simp: backward_step_def Let_def split: sum.splits prod.splits)
  from Generate_above [OF g l n]
  have a: "ledger_above k ir1" "k \<le> next_ref store1"
    "\<forall>q. q < k \<longrightarrow> objs store1 q = objs (bs_store st) q" by simp_all
  have f: "q < k \<Longrightarrow> h2 q = objs store1 q" for q
    by (rule DoGradientAccumulation_obj_frame [OF d a(1)])
  have "\<forall>q. q < k \<longrightarrow> objs (bs_store st') q = objs (bs_store st) q"
    using a(2,3) f by (simp add: s alloc_objs)
  moreover have "k \<le> next_ref (bs_store st')" using a(2) by (simp add: s alloc_next)
  moreover have "ledger_above k (bs_ir st')" using a(1) by (simp add: s)
  moreover have "\<exists>more. all_gradient_ops st' = all_gradient_ops st @ more" by (simp add: s)
  ultimately show ?thesis by simp
qed

lemma backward_loop_above:
  "backward_loop env cc reg i st = Inr st' \<Longrightarrow>
   ledger_above k (bs_ir st) \<Longrightarrow> k \<le> next_ref (bs_store st) \<Longrightarrow>
     (\<forall>q. q < k \<longrightarrow> objs (bs_store st') q = objs (bs_store st) q)
     \<and> (\<exists>more. all_gradient_ops st' = all_gradient_ops st @ more)"
proof (induction i arbitrary: st)
  case 0
  then show ?case by simp
next
  case (Suc i)
  from Suc.prems(1) obtain st1 where
    b: "backward_step env cc reg i st = Inr st1"
    and l: "backward_loop env cc reg i st1 = Inr st'"
    by (auto split: sum.splits)
  from backward_step_above [OF b Suc.prems(2,3)]
  have a: "ledger_above k (bs_ir st1)" "k \<le> next_ref (bs_store st1)"
    "\<forall>q. q < k \<longrightarrow> objs (bs_store st1) q = objs (bs_store st) q"
    "\<exists>more. all_gradient_ops st1 = all_gradient_ops st @ more" by simp_all
  from Suc.IH [OF l a(1,2)] a(3,4) show ?case by auto
qed

lemma GetBackwardPass_seeds:
  assumes "GetBackwardPass env cc reg ir ys = Inr (ops, m)"
      and "gradient_generators ir = (\<lambda>n v. [])"
  shows "take (length (seed_ops env ys)) ops = seed_ops env ys"
proof -
  let ?st0 = "backward_start env ir ys"
  let ?k = "length (seed_ops env ys)"
  from assms(1) obtain st where
    l: "backward_loop env cc reg (length (ssa ir)) ?st0 = Inr st"
    and o: "ops = map (objs (bs_store st)) (all_gradient_ops st)"
    by (auto simp: GetBackwardPass_def split: sum.splits)
  have la: "ledger_above ?k (bs_ir ?st0)"
    by (simp add: ledger_above_def backward_start_ops(4) assms(2))
  have n: "?k \<le> next_ref (bs_store ?st0)" by (simp add: backward_start_ops(2))
  from backward_loop_above [OF l la n] obtain more where
    f: "\<forall>q. q < ?k \<longrightarrow> objs (bs_store st) q = objs (bs_store ?st0) q"
    and a: "all_gradient_ops st = all_gradient_ops ?st0 @ more" by blast
  have "take ?k ops = map (objs (bs_store st)) [0 ..< ?k]"
    by (simp add: o a backward_start_ops(1))
  also have "\<dots> = map (\<lambda>q. seed_ops env ys ! q) [0 ..< ?k]"
    using f by (simp add: backward_start_ops(3))
  also have "\<dots> = seed_ops env ys" by (rule map_nth)
  finally show ?thesis .
qed

text \<open>
  C7, as the code has it. \<open>ys\<close> is the dict of targets as the list of its items, so its keys
  are pairwise different as names. In the state at the start of the backward
  pass, for every target \<open>y\<close> the gradient frontier of \<open>y\<close> is the frontier
  version of \<open>y\<close> in the \<open>IR\<close>, that is its final version after the replay of
  all the forward operators. The operator list holds exactly one
  \<open>ConstantFill\<close> operator with the argument \<open>value = 1\<close> for every target
  mapped to \<open>None\<close>, in the order of the items, reading \<open>y\<close> (as
  \<open>_RectifyInputOutput\<close> names it) and producing
  \<open>str(y) + '_autogen_grad'\<close> under the current name scope (which is empty
  by default, and which \<open>CreateOperator\<close> puts in front of an output given as
  a string), and none for a target mapped to a gradient. The seed gradient
  of a target mapped to \<open>None\<close> is the output of its operator, and that of
  any other target is the gradient it is mapped to. These operators are the
  first ones of the list that \<open>GradientRegistry.GetBackwardPass\<close> returns,
  unchanged by the reverse walk.
\<close>

theorem backward_pass_seeds:
  assumes "distinct (map (\<lambda>p. str_of (fst p)) ys)"
      and "seeds = map (\<lambda>p. \<lparr>op_type = ''ConstantFill'',
                              op_input = [RectifyInputOutput env (fst p)],
                              op_output = [CurrentNameScope env @ str_of (fst p) @ ''_autogen_grad''],
                              device_option = CurrentDeviceScope env,
                              op_arg = [(''value'', FloatArg 1)]\<rparr>)
                     (filter (\<lambda>p. snd p = NoGrad) ys)"
  shows "(\<forall>p \<in> set ys.
            gradient_frontier (bs_ir (backward_start env ir ys)) (str_of (fst p))
              = Some (frontier_of ir (str_of (fst p))))
       \<and> map (objs (bs_store (backward_start env ir ys)))
             (all_gradient_ops (backward_start env ir ys)) = seeds
       \<and> (\<forall>p \<in> set ys.
            all_input_to_grad (backward_start env ir ys) (str_of (fst p))
              = Some (if snd p = NoGrad
                      then Dense (CurrentNameScope env @ str_of (fst p) @ ''_autogen_grad'')
                      else snd p))
       \<and> (\<forall>GetGradientForOpCC gradient_registry operators ops m.
            GradientRegistry_GetBackwardPass env GetGradientForOpCC gradient_registry operators ys
              = Inr (ops, m) \<longrightarrow>
            take (length seeds) ops = seeds)"
proof -
  let ?st0 = "backward_start env ir ys"
  have s: "seeds = seed_ops env ys" by (simp add: assms(2) seed_ops_def)
  have 1: "\<forall>p \<in> set ys. gradient_frontier (bs_ir ?st0) (str_of (fst p))
              = Some (frontier_of ir (str_of (fst p)))"
    by (simp add: backward_start_def Let_def set_gradient_frontier_spec)
  have "map (objs (bs_store ?st0)) (all_gradient_ops ?st0)
          = map (\<lambda>q. seed_ops env ys ! q) [0 ..< length (seed_ops env ys)]"
    by (simp add: backward_start_ops)
  also have "\<dots> = seed_ops env ys" by (rule map_nth)
  finally have 2: "map (objs (bs_store ?st0)) (all_gradient_ops ?st0) = seeds" by (simp add: s)
  have 3: "\<forall>p \<in> set ys. all_input_to_grad ?st0 (str_of (fst p))
              = Some (if snd p = NoGrad
                      then Dense (CurrentNameScope env @ str_of (fst p) @ ''_autogen_grad'')
                      else snd p)"
  proof
    fix p assume p: "p \<in> set ys"
    have "find (\<lambda>q. str_of (fst q) = str_of (fst p)) ys = Some p"
      by (rule find_distinct_key [OF assms(1) p])
    then show "all_input_to_grad ?st0 (str_of (fst p))
              = Some (if snd p = NoGrad
                      then Dense (CurrentNameScope env @ str_of (fst p) @ ''_autogen_grad'')
                      else snd p)"
      by (simp add: backward_start_def Let_def GetInitGradients_def
          GetInitGradients_fold_map [OF assms(1)])
  qed
  have 4: "\<forall>GetGradientForOpCC gradient_registry operators ops m.
            GradientRegistry_GetBackwardPass env GetGradientForOpCC gradient_registry operators ys
              = Inr (ops, m) \<longrightarrow>
            take (length seeds) ops = seeds"
    unfolding s GradientRegistry_GetBackwardPass_def
    by (intro allI impI) (rule GetBackwardPass_seeds, assumption, rule IR_init_generators)
  from 1 2 3 4 show ?thesis by (intro conjI)
qed

theorem backward_pass_seeds_witness:
  "distinct (map (\<lambda>p. str_of (fst p))
      [(BlobReference ''Y'', NoGrad), (Name ''W'', Dense ''dW'')])
   \<and> gradient_frontier (bs_ir (backward_start default_env (IR_init inplace_net)
          [(BlobReference ''Y'', NoGrad), (Name ''W'', Dense ''dW'')])) ''Y'' = Some 1
   \<and> gradient_frontier (bs_ir (backward_start default_env (IR_init inplace_net)
          [(BlobReference ''Y'', NoGrad), (Name ''W'', Dense ''dW'')])) ''W'' = Some 0
   \<and> map (objs (bs_store (backward_start default_env (IR_init inplace_net)
              [(BlobReference ''Y'', NoGrad), (Name ''W'', Dense ''dW'')])))
        (all_gradient_ops (backward_start default_env (IR_init inplace_net)
              [(BlobReference ''Y'', NoGrad), (Name ''W'', Dense ''dW'')]))
       = [(mk_op ''ConstantFill'' [''Y''] [''Y_autogen_grad''])
             \<lparr>op_arg := [(''value'', FloatArg 1)]\<rparr>]
   \<and> all_input_to_grad (backward_start default_env (IR_init inplace_net)
          [(BlobReference ''Y'', NoGrad), (Name ''W'', Dense ''dW'')]) ''Y''
       = Some (Dense ''Y_autogen_grad'')
   \<and> all_input_to_grad (backward_start default_env (IR_init inplace_net)
          [(BlobReference ''Y'', NoGrad), (Name ''W'', Dense ''dW'')]) ''W''
       = Some (Dense ''dW'')
   \<and> (\<exists>ops m. GradientRegistry_GetBackwardPass default_env no_native square_registry
          square_net [(BlobReference ''Y'', NoGrad), (Name ''W'', Dense ''dW'')] = Inr (ops, m)
        \<and> take 1 ops = [(mk_op ''ConstantFill'' [''Y''] [''Y_autogen_grad''])
                           \<lparr>op_arg := [(''value'', FloatArg 1)]\<rparr>])"
proof -
  let ?ys = "[(BlobReference ''Y'', NoGrad), (Name ''W'', Dense ''dW'')]"
  let ?seed = "(mk_op ''ConstantFill'' [''Y''] [''Y_autogen_grad''])
                  \<lparr>op_arg := [(''value'', FloatArg 1)]\<rparr>"
  let ?st0 = "backward_start default_env (IR_init inplace_net) ?ys"
  have d: "distinct (map (\<lambda>p. str_of (fst p)) ?ys)" by simp
  have sd: "[?seed] = map (\<lambda>p. \<lparr>op_type = ''ConstantFill'',
                              op_input = [RectifyInputOutput default_env (fst p)],
                              op_output = [CurrentNameScope default_env @ str_of (fst p)
                                             @ ''_autogen_grad''],
                              device_option = CurrentDeviceScope default_env,
                              op_arg = [(''value'', FloatArg 1)]\<rparr>)
                     (filter (\<lambda>p. snd p = NoGrad) ?ys)"
    by (simp add: example_defs)
  note t = backward_pass_seeds [OF d sd, where ir = "IR_init inplace_net"]
  have f: "frontier_of (IR_init inplace_net) ''Y'' = 1" "frontier_of (IR_init inplace_net) ''W'' = 0"
    by (simp_all add: frontier_of_def inplace_net_def example_defs play_defs)
  from t [THEN conjunct1] f
  have 1: "gradient_frontier (bs_ir ?st0) ''Y'' = Some 1"
    "gradient_frontier (bs_ir ?st0) ''W'' = Some 0" by simp_all
  note 2 = t [THEN conjunct2, THEN conjunct1]
  from t [THEN conjunct2, THEN conjunct2, THEN conjunct1]
  have 3: "all_input_to_grad ?st0 ''Y'' = Some (Dense ''Y_autogen_grad'')"
    "all_input_to_grad ?st0 ''W'' = Some (Dense ''dW'')" by (simp_all add: example_defs)
  have "\<exists>ops m. GradientRegistry_GetBackwardPass default_env no_native square_registry
          square_net ?ys = Inr (ops, m)"
    by (simp add: square_net_def square_registry_def grad_names_rule_def example_defs play_defs
      pass_defs str_nat_small)
  then obtain ops m where
    ev: "GradientRegistry_GetBackwardPass default_env no_native square_registry
          square_net ?ys = Inr (ops, m)" by blast
  from t [THEN conjunct2, THEN conjunct2, THEN conjunct2, rule_format, OF ev]
  have "take 1 ops = [?seed]" by simp
  with ev have 4: "\<exists>ops m. GradientRegistry_GetBackwardPass default_env no_native square_registry
          square_net ?ys = Inr (ops, m) \<and> take 1 ops = [?seed]" by blast
  from d 1 2 3 4 show ?thesis by (intro conjI)
qed

text \<open>
  The claim as written fails under a name scope. \<open>_GetInitGradients\<close> hands
  the output of the seed operator to \<open>CreateOperator\<close> as the raw string
  \<open>str(y) + '_autogen_grad'\<close>, and \<open>_RectifyInputOutput\<close> puts the current
  name scope in front of a raw string. When the current name scope is
  \<open>s/\<close>, the seed of the target \<open>Y\<close> is therefore the blob \<open>s/Y_autogen_grad\<close>, not
  \<open>Y_autogen_grad\<close>, and this is the name that the gradient operator of the
  forward operator reads.
\<close>

theorem autogen_grad_name_scope_counterexample:
  "map (objs (bs_store (backward_start (default_env\<lparr>CurrentNameScope := ''s/''\<rparr>)
                          (IR_init square_net) [(BlobReference ''Y'', NoGrad)])))
       (all_gradient_ops (backward_start (default_env\<lparr>CurrentNameScope := ''s/''\<rparr>)
                          (IR_init square_net) [(BlobReference ''Y'', NoGrad)]))
     = [(mk_op ''ConstantFill'' [''Y''] [''s/Y_autogen_grad''])
          \<lparr>op_arg := [(''value'', FloatArg 1)]\<rparr>]
   \<and> all_input_to_grad (backward_start (default_env\<lparr>CurrentNameScope := ''s/''\<rparr>)
                          (IR_init square_net) [(BlobReference ''Y'', NoGrad)]) ''Y''
     = Some (Dense ''s/Y_autogen_grad'')
   \<and> ''s/Y_autogen_grad'' \<noteq> ''Y'' @ ''_autogen_grad''
   \<and> map_sum id fst
       (GradientRegistry_GetBackwardPass (default_env\<lparr>CurrentNameScope := ''s/''\<rparr>)
          no_native square_registry square_net [(BlobReference ''Y'', NoGrad)])
     = Inr [(mk_op ''ConstantFill'' [''Y''] [''s/Y_autogen_grad''])
              \<lparr>op_arg := [(''value'', FloatArg 1)]\<rparr>,
            mk_op ''MulGradient'' [''s/Y_autogen_grad'', ''X'', ''X'']
              [''_X_grad_autosplit_0'', ''_X_grad_autosplit_1''],
            mk_op ''Sum'' [''_X_grad_autosplit_0'', ''_X_grad_autosplit_1''] [''X_grad'']]"
  by (simp add: square_net_def square_registry_def grad_names_rule_def example_defs play_defs
      pass_defs str_nat_small)

end
